theory Spec2Isabelle
  imports Complex_Main
begin

section \<open>JavaScript values\<close>

text \<open>
  The Express handlers read the fields of \<^verbatim>\<open>req.body\<close>, a parsed JSON object (a list
  of its keys and values, each key once). A field that is absent reads as
  \<^verbatim>\<open>undefined\<close>. JSON numbers are modelled as rationals (no JSON text parses to NaN).
\<close>

datatype jsval =
    JUndefined
  | JNull
  | JBool bool
  | JNum rat
  | JStr string
  | JArr "jsval list"
  | JObj "(string \<times> jsval) list"

text \<open>What \<^verbatim>\<open>if (v)\<close> and \<^verbatim>\<open>!v\<close> test.\<close>

fun truthy :: "jsval \<Rightarrow> bool" where
  "truthy JUndefined = False"
| "truthy JNull = False"
| "truthy (JBool b) = b"
| "truthy (JNum n) = (n \<noteq> 0)"
| "truthy (JStr s) = (s \<noteq> [])"
| "truthy (JArr xs) = True"
| "truthy (JObj kvs) = True"

type_synonym body = "(string \<times> jsval) list"

text \<open>Destructuring \<^verbatim>\<open>const { k } = req.body\<close>, and with a default \<^verbatim>\<open>{ k = d }\<close>.\<close>

definition get_field :: "body \<Rightarrow> string \<Rightarrow> jsval" where
  "get_field b k = (case map_of b k of None \<Rightarrow> JUndefined | Some v \<Rightarrow> v)"

definition get_field_default :: "body \<Rightarrow> string \<Rightarrow> jsval \<Rightarrow> jsval" where
  "get_field_default b k d = (if get_field b k = JUndefined then d else get_field b k)"

section \<open>The server: tables and responses\<close>

text \<open>
  Identifiers are opaque strings (the \<^verbatim>\<open>:proposalId\<close> of a URL, the key column of a
  table). A column holds the value the handler passed as query parameter. The schema is
  not part of the sources: the model lets every statement the handlers issue succeed, so
  the \<^verbatim>\<open>catch\<close> branches (status 500) are not reached. \<^verbatim>\<open>NOW()\<close> and the key a
  new row gets are chosen by the database and are parameters of the inserting handlers.
\<close>

type_synonym ident = string

record proposal_row =
  dp_proposal_id :: ident
  dp_request_id :: jsval
  dp_merchant_id :: jsval
  dp_price :: jsval
  dp_status :: jsval
  dp_created_at :: nat

record request_row =
  cr_request_id :: ident
  cr_user_id :: jsval
  cr_status :: jsval
  cr_description :: jsval
  cr_design_images :: jsval
  cr_due_date :: jsval
  cr_priority :: jsval
  cr_updated_at :: nat

record payment_row =
  pay_payment_id :: ident
  pay_user_id :: jsval
  pay_merchant_id :: jsval
  pay_order_id :: jsval
  pay_amount :: jsval
  pay_payment_method :: jsval
  pay_payment_type :: jsval
  pay_status :: jsval
  pay_transaction_id :: jsval
  pay_transaction_date :: nat

record chat_row =
  chat_chat_id :: ident
  chat_sender_id :: jsval
  chat_receiver_id :: jsval
  chat_message :: jsval
  chat_status :: jsval
  chat_timestamp :: nat

record db =
  designer_proposals :: "proposal_row list"
  customization_requests :: "request_row list"
  payments :: "payment_row list"
  chat :: "chat_row list"

record 'a response =
  status_code :: nat
  success :: bool
  message :: string
  data :: "'a option"

definition respond :: "nat \<Rightarrow> bool \<Rightarrow> string \<Rightarrow> 'a option \<Rightarrow> 'a response" where
  "respond c s m d = \<lparr>status_code = c, success = s, message = m, data = d\<rparr>"

section \<open>Designer proposals endpoints\<close>

definition proposal_statuses :: "jsval list" where
  "proposal_statuses = [JStr ''Pending'', JStr ''Accepted'', JStr ''Cancelled'']"

text \<open>\<^verbatim>\<open>POST /api/designer-proposals\<close>\<close>

definition post_designer_proposals ::
  "ident \<Rightarrow> nat \<Rightarrow> body \<Rightarrow> db \<Rightarrow> proposal_row response \<times> db" where
  "post_designer_proposals new_id now b d =
     (let request_id = get_field b ''request_id'';
          merchant_id = get_field b ''merchant_id'';
          price = get_field b ''price'';
          status = get_field_default b ''status'' (JStr ''Pending'')
      in if \<not> truthy request_id \<or> \<not> truthy merchant_id \<or> \<not> truthy price then
           (respond 400 False ''Missing required fields'' None, d)
         else if status \<notin> set proposal_statuses then
           (respond 400 False ''Invalid status. Must be Pending, Accepted, or Cancelled'' None, d)
         else
           let row = \<lparr>dp_proposal_id = new_id, dp_request_id = request_id,
                      dp_merchant_id = merchant_id, dp_price = price, dp_status = status,
                      dp_created_at = now\<rparr>
           in (respond 201 True ''Designer proposal created successfully'' (Some row),
               d\<lparr>designer_proposals := designer_proposals d @ [row]\<rparr>))"

text \<open>
  \<^verbatim>\<open>PUT /api/designer-proposals/:proposalId\<close>. The handler collects the assignments
  of the \<^verbatim>\<open>SET\<close> clause in \<^verbatim>\<open>updates\<close>/\<^verbatim>\<open>values\<close>; here they are pairs of a
  column and its value.
\<close>

fun set_proposal_column :: "string \<times> jsval \<Rightarrow> proposal_row \<Rightarrow> proposal_row" where
  "set_proposal_column (c, v) r =
     (if c = ''price'' then r\<lparr>dp_price := v\<rparr>
      else if c = ''status'' then r\<lparr>dp_status := v\<rparr>
      else r)"

text \<open>The \<^verbatim>\<open>UPDATE ... WHERE proposal_id = $n RETURNING *\<close> and the answer built from it.\<close>

definition update_designer_proposal ::
  "ident \<Rightarrow> (string \<times> jsval) list \<Rightarrow> db \<Rightarrow> proposal_row response \<times> db" where
  "update_designer_proposal proposalId updates d =
     (if length updates = 0 then (respond 400 False ''No fields to update'' None, d)
      else
        let rows = map (\<lambda>r. if dp_proposal_id r = proposalId
                              then fold set_proposal_column updates r else r)
                       (designer_proposals d);
            d' = d\<lparr>designer_proposals := rows\<rparr>
        in case filter (\<lambda>r. dp_proposal_id r = proposalId) rows of
             [] \<Rightarrow> (respond 404 False ''Designer proposal not found'' None, d')
           | r # rest \<Rightarrow>
               (respond 200 True ''Designer proposal updated successfully'' (Some r), d'))"

definition put_designer_proposals ::
  "ident \<Rightarrow> body \<Rightarrow> db \<Rightarrow> proposal_row response \<times> db" where
  "put_designer_proposals proposalId b d =
     (let price = get_field b ''price'';
          status = get_field b ''status'';
          updates = (if price \<noteq> JUndefined then [(''price'', price)] else [])
      in if truthy status then
           if status \<notin> set proposal_statuses then
             (respond 400 False ''Invalid status. Must be Pending, Accepted, or Cancelled'' None, d)
           else update_designer_proposal proposalId (updates @ [(''status'', status)]) d
         else update_designer_proposal proposalId updates d)"

section \<open>Customization requests endpoint\<close>

definition request_statuses :: "jsval list" where
  "request_statuses = [JStr ''Pending'', JStr ''Accepted'', JStr ''Completed'']"

text \<open>
  \<^verbatim>\<open>PUT /api/customization-requests/:requestId\<close>. The assignment
  \<^verbatim>\<open>updated_at = NOW()\<close> is always pushed and carries no parameter: its entry in
  \<^verbatim>\<open>updates\<close> has the value \<^verbatim>\<open>undefined\<close> here, and the column is set to the
  database's time.
\<close>

fun set_request_column :: "nat \<Rightarrow> string \<times> jsval \<Rightarrow> request_row \<Rightarrow> request_row" where
  "set_request_column now (c, v) r =
     (if c = ''status'' then r\<lparr>cr_status := v\<rparr>
      else if c = ''description'' then r\<lparr>cr_description := v\<rparr>
      else if c = ''design_images'' then r\<lparr>cr_design_images := v\<rparr>
      else if c = ''due_date'' then r\<lparr>cr_due_date := v\<rparr>
      else if c = ''priority'' then r\<lparr>cr_priority := v\<rparr>
      else if c = ''updated_at'' then r\<lparr>cr_updated_at := now\<rparr>
      else r)"

definition update_customization_request ::
  "nat \<Rightarrow> ident \<Rightarrow> (string \<times> jsval) list \<Rightarrow> db \<Rightarrow> request_row response \<times> db" where
  "update_customization_request now requestId updates d =
     (if length updates = 0 then (respond 400 False ''No fields to update'' None, d)
      else
        let rows = map (\<lambda>r. if cr_request_id r = requestId
                              then fold (set_request_column now) updates r else r)
                       (customization_requests d);
            d' = d\<lparr>customization_requests := rows\<rparr>
        in case filter (\<lambda>r. cr_request_id r = requestId) rows of
             [] \<Rightarrow> (respond 404 False ''Customization request not found'' None, d')
           | r # rest \<Rightarrow>
               (respond 200 True ''Customization request updated successfully'' (Some r), d'))"

definition optional_assignment :: "body \<Rightarrow> string \<Rightarrow> (string \<times> jsval) list" where
  "optional_assignment b k = (if get_field b k \<noteq> JUndefined then [(k, get_field b k)] else [])"

definition put_customization_requests ::
  "nat \<Rightarrow> ident \<Rightarrow> body \<Rightarrow> db \<Rightarrow> request_row response \<times> db" where
  "put_customization_requests now requestId b d =
     (let status = get_field b ''status'';
          rest = optional_assignment b ''description'' @ optional_assignment b ''design_images''
               @ optional_assignment b ''due_date'' @ optional_assignment b ''priority''
               @ [(''updated_at'', JUndefined)]
      in if truthy status then
           if status \<notin> set request_statuses then
             (respond 400 False ''Invalid status. Must be Pending, Accepted, or Completed'' None, d)
           else update_customization_request now requestId ((''status'', status) # rest) d
         else update_customization_request now requestId rest d)"

section \<open>Payments endpoint\<close>

definition payment_statuses :: "jsval list" where
  "payment_statuses = [JStr ''Pending'', JStr ''Completed'', JStr ''Failed'']"

definition payment_types :: "jsval list" where
  "payment_types = [JStr ''Customer Payment'', JStr ''Merchant Payout'']"

text \<open>\<^verbatim>\<open>POST /api/payments\<close>\<close>

definition post_payments ::
  "ident \<Rightarrow> nat \<Rightarrow> body \<Rightarrow> db \<Rightarrow> payment_row response \<times> db" where
  "post_payments new_id now b d =
     (let user_id = get_field b ''user_id'';
          merchant_id = get_field b ''merchant_id'';
          order_id = get_field b ''order_id'';
          amount = get_field b ''amount'';
          payment_method = get_field b ''payment_method'';
          payment_type = get_field b ''payment_type'';
          status = get_field_default b ''status'' (JStr ''Pending'');
          transaction_id = get_field b ''transaction_id''
      in if \<not> truthy user_id \<or> \<not> truthy merchant_id \<or> \<not> truthy order_id
            \<or> \<not> truthy amount \<or> \<not> truthy payment_method \<or> \<not> truthy payment_type then
           (respond 400 False ''Missing required fields'' None, d)
         else if status \<notin> set payment_statuses then
           (respond 400 False ''Invalid status. Must be Pending, Completed, or Failed'' None, d)
         else if payment_type \<notin> set payment_types then
           (respond 400 False
              ''Invalid payment_type. Must be Customer Payment or Merchant Payout'' None, d)
         else
           let row = \<lparr>pay_payment_id = new_id, pay_user_id = user_id,
                      pay_merchant_id = merchant_id, pay_order_id = order_id,
                      pay_amount = amount, pay_payment_method = payment_method,
                      pay_payment_type = payment_type, pay_status = status,
                      pay_transaction_id = transaction_id, pay_transaction_date = now\<rparr>
           in (respond 201 True ''Payment created successfully'' (Some row),
               d\<lparr>payments := payments d @ [row]\<rparr>))"

section \<open>Chat endpoint\<close>

text \<open>\<^verbatim>\<open>POST /api/chat\<close>\<close>

definition post_chat ::
  "ident \<Rightarrow> nat \<Rightarrow> body \<Rightarrow> db \<Rightarrow> chat_row response \<times> db" where
  "post_chat new_id now b d =
     (let sender_id = get_field b ''sender_id'';
          receiver_id = get_field b ''receiver_id'';
          msg = get_field b ''message'';
          status = get_field_default b ''status'' (JStr ''sent'')
      in if \<not> truthy sender_id \<or> \<not> truthy receiver_id \<or> \<not> truthy msg then
           (respond 400 False ''Missing required fields'' None, d)
         else
           let row = \<lparr>chat_chat_id = new_id, chat_sender_id = sender_id,
                      chat_receiver_id = receiver_id, chat_message = msg,
                      chat_status = status, chat_timestamp = now\<rparr>
           in (respond 201 True ''Chat message sent successfully'' (Some row),
               d\<lparr>chat := chat d @ [row]\<rparr>))"

section \<open>The client's service layer\<close>

text \<open>
  The services call the endpoints through axios, whose promise resolves for a status
  2xx and rejects for every other status. A handler that awaits a rejected promise
  continues in its \<^verbatim>\<open>catch\<close> block.
\<close>

datatype 'a outcome = Resolved 'a | Rejected

definition axios :: "'a response \<times> db \<Rightarrow> 'a response outcome \<times> db" where
  "axios r = (if 200 \<le> status_code (fst r) \<and> status_code (fst r) < 300
              then Resolved (fst r) else Rejected, snd r)"

definition proposalService_updateProposal ::
  "ident \<Rightarrow> body \<Rightarrow> db \<Rightarrow> proposal_row response outcome \<times> db" where
  "proposalService_updateProposal proposalId proposalData d =
     axios (put_designer_proposals proposalId proposalData d)"

definition requestService_updateRequest ::
  "nat \<Rightarrow> ident \<Rightarrow> body \<Rightarrow> db \<Rightarrow> request_row response outcome \<times> db" where
  "requestService_updateRequest now requestId requestData d =
     axios (put_customization_requests now requestId requestData d)"

section \<open>The client's data (\<^verbatim>\<open>types/index.ts\<close>)\<close>

text \<open>
  The TypeScript interfaces as records. Their string unions are strings at run time and
  are kept as strings; an optional field is an \<open>option\<close>. Prices are rationals
  (multiplying by 0.25 is exact in binary floating point).
\<close>

record User =
  user_last_name :: string
  user_first_name :: string
  user_id :: ident
  user_name :: string
  user_email :: string
  user_role :: string
  user_profileImage :: "string option"

record ProjectRequest =
  req_id :: ident
  req_title :: string
  req_description :: string
  req_customerId :: ident
  req_customerName :: string
  req_images :: "string list"
  req_material :: string
  req_budget :: "rat option"
  req_timeframe :: "string option"
  req_status :: string
  req_createdAt :: string
  req_additionalDetails :: "string option"
  req_acceptedProposalId :: "ident option"
  req_acceptedPrice :: "rat option"
  req_designerId :: "ident option"
  req_designerName :: "string option"
  req_size :: "string option"

record Proposal =
  prop_id :: ident
  prop_requestId :: ident
  prop_designerId :: ident
  prop_designerName :: string
  prop_designerImage :: "string option"
  prop_price :: rat
  prop_estimatedTime :: string
  prop_message :: string
  prop_status :: string
  prop_createdAt :: string

record Message =
  msg_id :: ident
  msg_senderId :: ident
  msg_receiverId :: ident
  msg_content :: string
  msg_timestamp :: string
  msg_read :: bool
  msg_image :: "string option"

record TimelineUpdate =
  tu_id :: ident
  tu_requestId :: ident
  tu_status :: string
  tu_message :: string
  tu_timestamp :: string
  tu_paymentRequired :: "bool option"
  tu_paymentAmount :: "rat option"
  tu_paymentStatus :: "string option"

text \<open>A toast is kept by its title and variant; its description is display text.\<close>

datatype variant = Default | Destructive

datatype toast = Toast string variant

text \<open>An optional number or string as the JSON value \<^verbatim>\<open>JSON.stringify\<close> sends.\<close>

definition js_num :: "rat option \<Rightarrow> jsval" where
  "js_num v = (case v of None \<Rightarrow> JUndefined | Some n \<Rightarrow> JNum n)"

definition js_str :: "string option \<Rightarrow> jsval" where
  "js_str v = (case v of None \<Rightarrow> JUndefined | Some s \<Rightarrow> JStr s)"

section \<open>The request details page (\<^verbatim>\<open>pages/shared/RequestDetails.tsx\<close>)\<close>

text \<open>
  The component's state, with the toasts it has shown (latest last). A handler is a
  function of the page and of the backend's state \<open>'s\<close>; the service calls it awaits
  are its first parameters, each a function of the backend's state that resolves or
  rejects. The timeline routes \<^verbatim>\<open>/api/timeline\<close> are called with \<^verbatim>\<open>fetch\<close>; the
  server of this repository does not define them, so they are parameters throughout.
\<close>

record RequestDetails =
  rd_id :: "ident option"
  rd_user :: "User option"
  rd_request :: "ProjectRequest option"
  rd_proposals :: "Proposal list"
  rd_timeline :: "TimelineUpdate list"
  rd_activeTab :: string
  rd_toasts :: "toast list"

definition rd_toast :: "toast \<Rightarrow> RequestDetails \<Rightarrow> RequestDetails" where
  "rd_toast t p = p\<lparr>rd_toasts := rd_toasts p @ [t]\<rparr>"

subsection \<open>handleSubmitProposal\<close>

record proposalData =
  pd_price :: rat
  pd_estimatedTime :: string
  pd_message :: string

definition createProposal_body :: "ProjectRequest \<Rightarrow> proposalData \<Rightarrow> body" where
  "createProposal_body r pd =
     [(''requestId'', JStr (req_id r)), (''price'', JNum (pd_price pd)),
      (''estimatedTime'', JStr (pd_estimatedTime pd)), (''message'', JStr (pd_message pd))]"

definition handleSubmitProposal ::
  "(body \<Rightarrow> 's \<Rightarrow> Proposal outcome \<times> 's) \<Rightarrow> proposalData \<Rightarrow>
   RequestDetails \<times> 's \<Rightarrow> RequestDetails \<times> 's" where
  "handleSubmitProposal createProposal pd ps =
     (let p = fst ps; s = snd ps in
      case (rd_user p, rd_request p) of
        (Some u, Some r) \<Rightarrow>
          (case find (\<lambda>q. prop_designerId q = user_id u) (rd_proposals p) of
             Some existingProposal \<Rightarrow>
               (rd_toast (Toast ''Proposal already submitted'' Destructive) p, s)
           | None \<Rightarrow>
               (case createProposal (createProposal_body r pd) s of
                  (Resolved newProposal, s') \<Rightarrow>
                    ((rd_toast (Toast ''Proposal submitted'' Default)
                        (p\<lparr>rd_proposals := rd_proposals p @ [newProposal]\<rparr>))
                       \<lparr>rd_activeTab := ''proposals''\<rparr>, s')
                | (Rejected, s') \<Rightarrow> (rd_toast (Toast ''Error'' Destructive) p, s')))
      | _ \<Rightarrow> (p, s))"

subsection \<open>handleAcceptProposal\<close>

text \<open>The function mapped over the page's proposals.\<close>

definition mark_accepted :: "ident \<Rightarrow> Proposal \<Rightarrow> Proposal" where
  "mark_accepted proposalId prop =
     (if prop_id prop = proposalId then prop\<lparr>prop_status := ''accepted''\<rparr>
      else if prop_id prop \<noteq> proposalId \<and> prop_status prop \<noteq> ''rejected''
        then prop\<lparr>prop_status := ''rejected''\<rparr>
      else prop)"

definition assign_request :: "ProjectRequest \<Rightarrow> ident \<Rightarrow> Proposal \<Rightarrow> ProjectRequest" where
  "assign_request request proposalId acceptedProposal =
     request\<lparr>req_status := ''assigned'',
             req_acceptedProposalId := Some proposalId,
             req_acceptedPrice := Some (prop_price acceptedProposal),
             req_designerId := Some (prop_designerId acceptedProposal),
             req_designerName := Some (prop_designerName acceptedProposal)\<rparr>"

definition assigned_body :: "ident \<Rightarrow> Proposal \<Rightarrow> body" where
  "assigned_body proposalId acceptedProposal =
     [(''status'', JStr ''assigned''), (''acceptedProposalId'', JStr proposalId),
      (''acceptedPrice'', JNum (prop_price acceptedProposal)),
      (''designerId'', JStr (prop_designerId acceptedProposal)),
      (''designerName'', JStr (prop_designerName acceptedProposal))]"

text \<open>The end of the \<^verbatim>\<open>try\<close> block: the toast, then the timeline is fetched again.\<close>

definition accept_finish ::
  "(ident option \<Rightarrow> 's \<Rightarrow> TimelineUpdate list outcome \<times> 's) \<Rightarrow>
   RequestDetails \<times> 's \<Rightarrow> RequestDetails \<times> 's" where
  "accept_finish fetchTimeline ps =
     (let p = rd_toast (Toast ''Proposal accepted'' Default) (fst ps) in
      case fetchTimeline (rd_id p) (snd ps) of
        (Resolved updatedTimelineData, s') \<Rightarrow> (p\<lparr>rd_timeline := updatedTimelineData\<rparr>, s')
      | (Rejected, s') \<Rightarrow> (rd_toast (Toast ''Error'' Destructive) p, s'))"

definition handleAcceptProposal ::
  "(ident \<Rightarrow> body \<Rightarrow> 's \<Rightarrow> 'a outcome \<times> 's) \<Rightarrow> (ident \<Rightarrow> body \<Rightarrow> 's \<Rightarrow> 'b outcome \<times> 's) \<Rightarrow>
   (ident option \<Rightarrow> 's \<Rightarrow> TimelineUpdate list outcome \<times> 's) \<Rightarrow>
   ident \<Rightarrow> RequestDetails \<times> 's \<Rightarrow> RequestDetails \<times> 's" where
  "handleAcceptProposal updateProposal updateRequest fetchTimeline proposalId ps =
     (let p = fst ps; s = snd ps in
      case updateProposal proposalId [(''status'', JStr ''accepted'')] s of
        (Rejected, s1) \<Rightarrow> (rd_toast (Toast ''Error'' Destructive) p, s1)
      | (Resolved x, s1) \<Rightarrow>
          let p1 = p\<lparr>rd_proposals := map (mark_accepted proposalId) (rd_proposals p)\<rparr> in
          (case rd_request p of
             None \<Rightarrow> accept_finish fetchTimeline (p1, s1)
           | Some request \<Rightarrow>
               (case find (\<lambda>q. prop_id q = proposalId) (rd_proposals p) of
                  None \<Rightarrow> accept_finish fetchTimeline (p1, s1)
                | Some acceptedProposal \<Rightarrow>
                    let p2 = p1\<lparr>rd_request :=
                                  Some (assign_request request proposalId acceptedProposal)\<rparr> in
                    (case updateRequest (req_id request)
                            (assigned_body proposalId acceptedProposal) s1 of
                       (Rejected, s2) \<Rightarrow> (rd_toast (Toast ''Error'' Destructive) p2, s2)
                     | (Resolved y, s2) \<Rightarrow> accept_finish fetchTimeline (p2, s2)))))"

subsection \<open>handleRejectProposal\<close>

definition mark_rejected :: "ident \<Rightarrow> Proposal \<Rightarrow> Proposal" where
  "mark_rejected proposalId prop =
     (if prop_id prop = proposalId then prop\<lparr>prop_status := ''rejected''\<rparr> else prop)"

definition handleRejectProposal ::
  "(ident \<Rightarrow> body \<Rightarrow> 's \<Rightarrow> 'a outcome \<times> 's) \<Rightarrow> ident \<Rightarrow>
   RequestDetails \<times> 's \<Rightarrow> RequestDetails \<times> 's" where
  "handleRejectProposal updateProposal proposalId ps =
     (let p = fst ps; s = snd ps in
      case updateProposal proposalId [(''status'', JStr ''rejected'')] s of
        (Rejected, s1) \<Rightarrow> (rd_toast (Toast ''Error'' Destructive) p, s1)
      | (Resolved x, s1) \<Rightarrow>
          (rd_toast (Toast ''Proposal rejected'' Default)
             (p\<lparr>rd_proposals := map (mark_rejected proposalId) (rd_proposals p)\<rparr>), s1))"

subsection \<open>The Accept button\<close>

text \<open>
  \<^verbatim>\<open>ProposalCard\<close> shows the Accept button when \<^verbatim>\<open>isCustomer\<close> holds and the
  proposal is pending; the page passes \<^verbatim>\<open>onAccept\<close> only when \<^verbatim>\<open>isUsersRequest\<close>
  holds.
\<close>

definition isUsersRequest :: "RequestDetails \<Rightarrow> bool" where
  "isUsersRequest p =
     (case (rd_user p, rd_request p) of
        (Some u, Some r) \<Rightarrow> user_id u = req_customerId r
      | _ \<Rightarrow> False)"

definition isCustomer :: "RequestDetails \<Rightarrow> bool" where
  "isCustomer p = (case rd_user p of Some u \<Rightarrow> user_role u = ''customer'' | None \<Rightarrow> False)"

definition accept_offered :: "RequestDetails \<Rightarrow> Proposal \<Rightarrow> bool" where
  "accept_offered p proposal =
     (isCustomer p \<and> prop_status proposal = ''pending'' \<and> isUsersRequest p)"

subsection \<open>The update form on the page\<close>

text \<open>
  The Timeline tab is shown when the request is not open, to the request's customer and
  to the designer of the accepted proposal; the update form in it is shown to that
  designer.
\<close>

definition isAssignedDesigner :: "RequestDetails \<Rightarrow> bool" where
  "isAssignedDesigner p =
     (case rd_user p of
        None \<Rightarrow> False
      | Some u \<Rightarrow>
          (case find (\<lambda>q. prop_status q = ''accepted'') (rd_proposals p) of
             None \<Rightarrow> False
           | Some acceptedProposal \<Rightarrow> user_id u = prop_designerId acceptedProposal))"

definition update_form_offered :: "RequestDetails \<Rightarrow> bool" where
  "update_form_offered p =
     (case rd_request p of
        None \<Rightarrow> False
      | Some request \<Rightarrow>
          req_status request \<noteq> ''open'' \<and> (isUsersRequest p \<or> isAssignedDesigner p)
          \<and> isAssignedDesigner p)"

subsection \<open>handleAddTimelineUpdate\<close>

definition rd_timeline_body :: "ProjectRequest \<Rightarrow> string \<Rightarrow> string \<Rightarrow> body" where
  "rd_timeline_body r status msg =
     [(''requestId'', JStr (req_id r)), (''status'', JStr status), (''message'', JStr msg)]"

text \<open>
  The inner \<^verbatim>\<open>try\<close>: the page's request is set to completed, the update is sent, and a
  rejected update puts the original request back.
\<close>

definition rd_handleAddTimelineUpdate ::
  "(body \<Rightarrow> 's \<Rightarrow> TimelineUpdate outcome \<times> 's) \<Rightarrow> (ident \<Rightarrow> body \<Rightarrow> 's \<Rightarrow> 'b outcome \<times> 's) \<Rightarrow>
   string \<Rightarrow> string \<Rightarrow> RequestDetails \<times> 's \<Rightarrow> RequestDetails \<times> 's" where
  "rd_handleAddTimelineUpdate postTimeline updateRequest status msg ps =
     (let p = fst ps; s = snd ps in
      case rd_request p of
        None \<Rightarrow> (p, s)
      | Some request \<Rightarrow>
          (case postTimeline (rd_timeline_body request status msg) s of
             (Rejected, s1) \<Rightarrow> (rd_toast (Toast ''Error'' Destructive) p, s1)
           | (Resolved newUpdate, s1) \<Rightarrow>
               let p1 = p\<lparr>rd_timeline := rd_timeline p @ [newUpdate]\<rparr> in
               if status = ''delivered'' then
                 (case updateRequest (req_id request) [(''status'', JStr ''completed'')] s1 of
                    (Resolved y, s2) \<Rightarrow>
                      (rd_toast (Toast ''Timeline updated'' Default)
                         (p1\<lparr>rd_request := Some (request\<lparr>req_status := ''completed''\<rparr>)\<rparr>), s2)
                  | (Rejected, s2) \<Rightarrow>
                      (rd_toast (Toast ''Timeline updated'' Default)
                         (p1\<lparr>rd_request := Some request\<rparr>), s2))
               else (rd_toast (Toast ''Timeline updated'' Default) p1, s1)))"

text \<open>
  The page passes \<^verbatim>\<open>handleAddTimelineUpdate\<close> to the update form as its
  \<^verbatim>\<open>onSubmit\<close>; the form calls it with four arguments, of which it takes the first
  two.
\<close>

definition rd_onSubmit ::
  "(body \<Rightarrow> 's \<Rightarrow> TimelineUpdate outcome \<times> 's) \<Rightarrow> (ident \<Rightarrow> body \<Rightarrow> 's \<Rightarrow> 'b outcome \<times> 's) \<Rightarrow>
   string \<Rightarrow> string \<Rightarrow> bool \<Rightarrow> rat option \<Rightarrow> RequestDetails \<times> 's \<Rightarrow> RequestDetails \<times> 's" where
  "rd_onSubmit postTimeline updateRequest status msg formPaymentRequired formPaymentAmount ps =
     rd_handleAddTimelineUpdate postTimeline updateRequest status msg ps"

section \<open>The update form (\<^verbatim>\<open>components/shared/TimelineUpdateForm.tsx\<close>)\<close>

record status_option =
  so_value :: string
  so_label :: string

definition defaultStatuses :: "status_option list" where
  "defaultStatuses =
     [\<lparr>so_value = ''design'', so_label = ''Design Complete''\<rparr>,
      \<lparr>so_value = ''material'', so_label = ''Materials Selected''\<rparr>,
      \<lparr>so_value = ''production'', so_label = ''Production Started''\<rparr>,
      \<lparr>so_value = ''quality'', so_label = ''Quality Check''\<rparr>,
      \<lparr>so_value = ''shipping'', so_label = ''Shipping''\<rparr>,
      \<lparr>so_value = ''delivered'', so_label = ''Delivered''\<rparr>]"

text \<open>The \<^verbatim>\<open>customStatuses\<close> both pages pass to the form.\<close>

definition customStatuses :: "status_option list" where
  "customStatuses =
     [\<lparr>so_value = ''assigned'', so_label = ''Order Assigned''\<rparr>,
      \<lparr>so_value = ''stitched'', so_label = ''Stitching Complete''\<rparr>,
      \<lparr>so_value = ''dyed'', so_label = ''Dyeing Complete''\<rparr>,
      \<lparr>so_value = ''fitting'', so_label = ''Fitting Complete''\<rparr>,
      \<lparr>so_value = ''out_for_delivery'', so_label = ''Out for Delivery''\<rparr>,
      \<lparr>so_value = ''delivered'', so_label = ''Delivered''\<rparr>]"

definition availableStatuses :: "status_option list option \<Rightarrow> status_option list" where
  "availableStatuses custom = (case custom of Some c \<Rightarrow> c | None \<Rightarrow> defaultStatuses)"

definition filteredStatuses :: "status_option list \<Rightarrow> string list \<Rightarrow> status_option list" where
  "filteredStatuses available existingStatuses =
     filter (\<lambda>statusOption. so_value statusOption \<notin> set existingStatuses) available"

text \<open>
  The form's state. \<^verbatim>\<open>handleSubmit\<close> calls the parent's \<^verbatim>\<open>onSubmit\<close> when status and
  message are not empty, and clears the message only; \<open>'p\<close> is what the callback acts on.
\<close>

record TimelineUpdateForm =
  tf_status :: string
  tf_message :: string
  tf_paymentRequired :: bool
  tf_paymentAmount :: "rat option"

definition initial_form :: TimelineUpdateForm where
  "initial_form = \<lparr>tf_status = ''design'', tf_message = [], tf_paymentRequired = False,
                   tf_paymentAmount = None\<rparr>"

definition tf_handleSubmit ::
  "(string \<Rightarrow> string \<Rightarrow> bool \<Rightarrow> rat option \<Rightarrow> 'p \<Rightarrow> 'p) \<Rightarrow>
   TimelineUpdateForm \<times> 'p \<Rightarrow> TimelineUpdateForm \<times> 'p" where
  "tf_handleSubmit onSubmit fp =
     (let f = fst fp in
      if tf_status f \<noteq> [] \<and> tf_message f \<noteq> [] then
        (f\<lparr>tf_message := []\<rparr>,
         onSubmit (tf_status f) (tf_message f) (tf_paymentRequired f) (tf_paymentAmount f) (snd fp))
      else fp)"

section \<open>The order page (\<^verbatim>\<open>pages/designer/ManageOrder.tsx\<close>)\<close>

record ManageOrder =
  mo_user :: "User option"
  mo_request :: "ProjectRequest option"
  mo_timeline :: "TimelineUpdate list"
  mo_toasts :: "toast list"

definition mo_toast :: "toast \<Rightarrow> ManageOrder \<Rightarrow> ManageOrder" where
  "mo_toast t p = p\<lparr>mo_toasts := mo_toasts p @ [t]\<rparr>"

definition mo_timeline_body ::
  "ProjectRequest \<Rightarrow> string \<Rightarrow> string \<Rightarrow> bool \<Rightarrow> rat option \<Rightarrow> body" where
  "mo_timeline_body r status msg paymentRequired paymentAmount =
     [(''requestId'', JStr (req_id r)), (''status'', JStr status), (''message'', JStr msg),
      (''paymentRequired'', JBool paymentRequired), (''paymentAmount'', js_num paymentAmount)]"

definition mo_handleAddTimelineUpdate ::
  "(body \<Rightarrow> 's \<Rightarrow> TimelineUpdate outcome \<times> 's) \<Rightarrow>
   string \<Rightarrow> string \<Rightarrow> bool \<Rightarrow> rat option \<Rightarrow> ManageOrder \<times> 's \<Rightarrow> ManageOrder \<times> 's" where
  "mo_handleAddTimelineUpdate postTimeline status msg paymentRequired paymentAmount ps =
     (let p = fst ps; s = snd ps in
      case mo_request p of
        None \<Rightarrow> (p, s)
      | Some request \<Rightarrow>
          (case postTimeline (mo_timeline_body request status msg paymentRequired paymentAmount) s of
             (Rejected, s1) \<Rightarrow> (mo_toast (Toast ''Error'' Destructive) p, s1)
           | (Resolved newUpdate, s1) \<Rightarrow>
               let p1 = p\<lparr>mo_timeline := mo_timeline p @ [newUpdate]\<rparr>;
                   p2 = (if status = ''delivered''
                         then p1\<lparr>mo_request := Some (request\<lparr>req_status := ''completed''\<rparr>)\<rparr>
                         else p1)
               in (mo_toast (Toast ''Timeline updated'' Default) p2, s1)))"

text \<open>
  \<^verbatim>\<open>request.acceptedPrice || 0\<close>: the price, and 0 when it is absent (or is 0).
\<close>

definition or_zero :: "rat option \<Rightarrow> rat" where
  "or_zero v = (case v of None \<Rightarrow> 0 | Some n \<Rightarrow> if n \<noteq> 0 then n else 0)"

text \<open>
  The payment the page's \<^verbatim>\<open>onSubmit\<close> computes for a status: whether one is required,
  and its amount.
\<close>

definition timeline_payment :: "ProjectRequest \<Rightarrow> string \<Rightarrow> bool \<times> rat option" where
  "timeline_payment request status =
     (let payment = (False, None);
          payment = (if status \<in> set [''stitched'', ''fitting'']
                     then (True, Some (or_zero (req_acceptedPrice request) * (1 / 4)))
                     else payment);
          payment = (if status = ''delivered''
                     then (True, Some (or_zero (req_acceptedPrice request) * (1 / 4)))
                     else payment)
      in payment)"

definition mo_onSubmit ::
  "(body \<Rightarrow> 's \<Rightarrow> TimelineUpdate outcome \<times> 's) \<Rightarrow>
   string \<Rightarrow> string \<Rightarrow> bool \<Rightarrow> rat option \<Rightarrow> ManageOrder \<times> 's \<Rightarrow> ManageOrder \<times> 's" where
  "mo_onSubmit postTimeline status msg formPaymentRequired formPaymentAmount ps =
     (case mo_request (fst ps) of
        None \<Rightarrow> ps
      | Some request \<Rightarrow>
          mo_handleAddTimelineUpdate postTimeline status msg
            (fst (timeline_payment request status)) (snd (timeline_payment request status)) ps)"




section \<open>The messages page (\<^verbatim>\<open>pages/shared/Messages.tsx\<close>)\<close>

record Messages =
  ms_user :: "User option"
  ms_selectedPartner :: "User option"
  ms_messages :: "Message list"
  ms_toasts :: "toast list"

definition messageData :: "User \<Rightarrow> User \<Rightarrow> string \<Rightarrow> string option \<Rightarrow> body" where
  "messageData u selectedPartner content imageUrl =
     [(''senderId'', JStr (user_id u)), (''receiverId'', JStr (user_id selectedPartner)),
      (''content'', JStr content), (''image'', js_str imageUrl)]"

text \<open>\<open>imageUrl\<close> is the data URL the file reader gives for the attached image, if any.\<close>

definition handleSendMessage ::
  "(body \<Rightarrow> 's \<Rightarrow> Message outcome \<times> 's) \<Rightarrow> string \<Rightarrow> string option \<Rightarrow>
   Messages \<times> 's \<Rightarrow> Messages \<times> 's" where
  "handleSendMessage sendMessage content imageUrl ps =
     (let p = fst ps; s = snd ps in
      case (ms_user p, ms_selectedPartner p) of
        (Some u, Some selectedPartner) \<Rightarrow>
          (case sendMessage (messageData u selectedPartner content imageUrl) s of
             (Resolved newMessage, s') \<Rightarrow> (p\<lparr>ms_messages := ms_messages p @ [newMessage]\<rparr>, s')
           | (Rejected, s') \<Rightarrow> (p\<lparr>ms_toasts := ms_toasts p @ [Toast ''Error'' Destructive]\<rparr>, s'))
      | _ \<Rightarrow> (p, s))"

section \<open>The payment page (\<^verbatim>\<open>pages/customer/Payment.tsx\<close>)\<close>

record PaymentPage =
  pp_request :: "ProjectRequest option"
  pp_timelineUpdate :: "TimelineUpdate option"
  pp_processingPayment :: bool
  pp_toasts :: "toast list"
  pp_location :: "string option"

definition payment_body :: "ProjectRequest \<Rightarrow> TimelineUpdate \<Rightarrow> rat \<Rightarrow> body" where
  "payment_body request timelineUpdate amount =
     [(''requestId'', JStr (req_id request)), (''timelineUpdateId'', JStr (tu_id timelineUpdate)),
      (''amount'', JNum amount)]"

text \<open>
  The page posts with \<^verbatim>\<open>fetch\<close>, whose promise resolves for every answer of the
  server and rejects only when no answer arrives.
\<close>

definition handleMakePayment ::
  "(body \<Rightarrow> 's \<Rightarrow> unit outcome \<times> 's) \<Rightarrow> PaymentPage \<times> 's \<Rightarrow> PaymentPage \<times> 's" where
  "handleMakePayment postPayment ps =
     (let p = fst ps; s = snd ps in
      case (pp_request p, pp_timelineUpdate p) of
        (Some request, Some timelineUpdate) \<Rightarrow>
          (case tu_paymentAmount timelineUpdate of
             None \<Rightarrow> (p, s)
           | Some amount \<Rightarrow>
               if amount = 0 then (p, s)
               else
                 (case postPayment (payment_body request timelineUpdate amount) s of
                    (Resolved x, s') \<Rightarrow>
                      (p\<lparr>pp_toasts := pp_toasts p @ [Toast ''Payment successful'' Default],
                         pp_location := Some (''/requests/'' @ req_id request),
                         pp_processingPayment := False\<rparr>, s')
                  | (Rejected, s') \<Rightarrow>
                      (p\<lparr>pp_toasts := pp_toasts p @ [Toast ''Payment failed'' Destructive],
                         pp_processingPayment := False\<rparr>, s')))
      | _ \<Rightarrow> (p, s))"

section \<open>Example data\<close>

text \<open>
  The scenario of the specification: customer 3 owns request 7; designers 21 and 22
  have bid 100 and 120 on it.
\<close>

definition row_p1 :: proposal_row where
  "row_p1 = \<lparr>dp_proposal_id = ''1'', dp_request_id = JNum 7, dp_merchant_id = JNum 21,
             dp_price = JNum 100, dp_status = JStr ''Pending'', dp_created_at = 1\<rparr>"

definition row_p2 :: proposal_row where
  "row_p2 = \<lparr>dp_proposal_id = ''2'', dp_request_id = JNum 7, dp_merchant_id = JNum 22,
             dp_price = JNum 120, dp_status = JStr ''Pending'', dp_created_at = 2\<rparr>"

definition row_r7 :: request_row where
  "row_r7 = \<lparr>cr_request_id = ''7'', cr_user_id = JNum 3, cr_status = JStr ''Pending'',
             cr_description = JStr ''silk dress'', cr_design_images = JArr [],
             cr_due_date = JNull, cr_priority = JStr ''normal'', cr_updated_at = 0\<rparr>"

definition db0 :: db where
  "db0 = \<lparr>designer_proposals = [row_p1, row_p2], customization_requests = [row_r7],
          payments = [], chat = []\<rparr>"

text \<open>The same store once request 7 has been given to designer 21.\<close>

definition db1 :: db where
  "db1 = \<lparr>designer_proposals = [row_p1\<lparr>dp_status := JStr ''Accepted''\<rparr>, row_p2],
          customization_requests = [row_r7\<lparr>cr_status := JStr ''Accepted''\<rparr>],
          payments = [], chat = []\<rparr>"

definition user_c :: User where
  "user_c = \<lparr>user_last_name = ''Rao'', user_first_name = ''Chitra'', user_id = ''3'',
             user_name = ''Chitra Rao'', user_email = ''c@example.org'',
             user_role = ''customer'', user_profileImage = None\<rparr>"

definition user_d1 :: User where
  "user_d1 = \<lparr>user_last_name = ''Iyer'', user_first_name = ''Dev'', user_id = ''21'',
              user_name = ''Dev Iyer'', user_email = ''d@example.org'',
              user_role = ''designer'', user_profileImage = None\<rparr>"

definition request_r :: ProjectRequest where
  "request_r = \<lparr>req_id = ''7'', req_title = ''Silk dress'', req_description = ''silk dress'',
                req_customerId = ''3'', req_customerName = ''Chitra Rao'', req_images = [],
                req_material = ''silk'', req_budget = Some 150, req_timeframe = Some ''4 weeks'',
                req_status = ''open'', req_createdAt = ''2025-01-01'',
                req_additionalDetails = None, req_acceptedProposalId = None,
                req_acceptedPrice = None, req_designerId = None, req_designerName = None,
                req_size = None\<rparr>"

definition proposal_p1 :: Proposal where
  "proposal_p1 = \<lparr>prop_id = ''1'', prop_requestId = ''7'', prop_designerId = ''21'',
                  prop_designerName = ''Dev Iyer'', prop_designerImage = None,
                  prop_price = 100, prop_estimatedTime = ''3 weeks'',
                  prop_message = ''I can do this'', prop_status = ''pending'',
                  prop_createdAt = ''2025-01-02''\<rparr>"

definition proposal_p2 :: Proposal where
  "proposal_p2 = \<lparr>prop_id = ''2'', prop_requestId = ''7'', prop_designerId = ''22'',
                  prop_designerName = ''Esha Nair'', prop_designerImage = None,
                  prop_price = 120, prop_estimatedTime = ''2 weeks'',
                  prop_message = ''Happy to help'', prop_status = ''pending'',
                  prop_createdAt = ''2025-01-03''\<rparr>"

definition request_assigned :: ProjectRequest where
  "request_assigned = assign_request request_r ''1'' proposal_p1"

definition page0 :: RequestDetails where
  "page0 = \<lparr>rd_id = Some ''7'', rd_user = Some user_c, rd_request = Some request_r,
            rd_proposals = [proposal_p1, proposal_p2], rd_timeline = [],
            rd_activeTab = ''details'', rd_toasts = []\<rparr>"

definition update_stitched :: TimelineUpdate where
  "update_stitched = \<lparr>tu_id = ''u1'', tu_requestId = ''7'', tu_status = ''stitched'',
                      tu_message = ''stitching done'', tu_timestamp = ''2025-02-01'',
                      tu_paymentRequired = Some True, tu_paymentAmount = Some 25,
                      tu_paymentStatus = Some ''pending''\<rparr>"

definition update_delivered :: TimelineUpdate where
  "update_delivered = \<lparr>tu_id = ''u2'', tu_requestId = ''7'', tu_status = ''delivered'',
                       tu_message = ''handed over'', tu_timestamp = ''2025-03-01'',
                       tu_paymentRequired = Some True, tu_paymentAmount = Some 25,
                       tu_paymentStatus = Some ''pending''\<rparr>"

text \<open>A backend call that resolves and leaves the backend as it is.\<close>

definition resolves :: "'a \<Rightarrow> 's \<Rightarrow> 'a outcome \<times> 's" where
  "resolves v s = (Resolved v, s)"

text \<open>The pages once request 7 is assigned to designer 21, who is signed in.\<close>

definition page1 :: RequestDetails where
  "page1 = \<lparr>rd_id = Some ''7'', rd_user = Some user_d1, rd_request = Some request_assigned,
            rd_proposals = [proposal_p1\<lparr>prop_status := ''accepted''\<rparr>,
                            proposal_p2\<lparr>prop_status := ''rejected''\<rparr>],
            rd_timeline = [], rd_activeTab = ''timeline'', rd_toasts = []\<rparr>"

definition order_page :: ManageOrder where
  "order_page = \<lparr>mo_user = Some user_d1, mo_request = Some request_assigned,
                 mo_timeline = [update_stitched], mo_toasts = []\<rparr>"

text \<open>
  Backends that keep a log of the calls they get, for looking at what a handler sends and
  in which order: one that takes every update, and a request update that is refused.
\<close>

type_synonym call_log = "(string \<times> body) list"

definition logged_updateProposal :: "ident \<Rightarrow> body \<Rightarrow> call_log \<Rightarrow> unit outcome \<times> call_log" where
  "logged_updateProposal i b s = (Resolved (), s @ [(''PUT /designer-proposals/'' @ i, b)])"

definition logged_updateRequest :: "ident \<Rightarrow> body \<Rightarrow> call_log \<Rightarrow> unit outcome \<times> call_log" where
  "logged_updateRequest i b s = (Resolved (), s @ [(''PUT /customization-requests/'' @ i, b)])"

definition refused_updateRequest :: "ident \<Rightarrow> body \<Rightarrow> call_log \<Rightarrow> unit outcome \<times> call_log" where
  "refused_updateRequest i b s = (Rejected, s @ [(''PUT /customization-requests/'' @ i, b)])"

definition logged_fetchTimeline ::
  "ident option \<Rightarrow> call_log \<Rightarrow> TimelineUpdate list outcome \<times> call_log" where
  "logged_fetchTimeline i s =
     (Resolved [], s @ [(''GET /api/timeline/'' @ (case i of Some j \<Rightarrow> j | None \<Rightarrow> ''undefined''), [])])"

text \<open>
  A timeline route that stores what it is sent and answers with the stored update, and
  the update form used twice on the request details page: the designer picks
  \<^verbatim>\<open>stitched\<close>, submits, types another message and submits again.
\<close>

definition js_text :: "jsval \<Rightarrow> string" where
  "js_text v = (case v of JStr t \<Rightarrow> t | _ \<Rightarrow> [])"

definition posted_update :: "body \<Rightarrow> TimelineUpdate" where
  "posted_update b =
     \<lparr>tu_id = ''u-'' @ js_text (get_field b ''message''),
      tu_requestId = js_text (get_field b ''requestId''),
      tu_status = js_text (get_field b ''status''),
      tu_message = js_text (get_field b ''message''),
      tu_timestamp = ''2025-02-01'', tu_paymentRequired = None, tu_paymentAmount = None,
      tu_paymentStatus = None\<rparr>"

definition logged_postTimeline :: "body \<Rightarrow> call_log \<Rightarrow> TimelineUpdate outcome \<times> call_log" where
  "logged_postTimeline b s = (Resolved (posted_update b), s @ [(''POST /api/timeline'', b)])"

definition form_stitched :: TimelineUpdateForm where
  "form_stitched = \<lparr>tf_status = ''stitched'', tf_message = ''stitching done'',
                    tf_paymentRequired = False, tf_paymentAmount = None\<rparr>"

definition first_submit :: "TimelineUpdateForm \<times> RequestDetails \<times> call_log" where
  "first_submit =
     tf_handleSubmit (rd_onSubmit logged_postTimeline logged_updateRequest)
       (form_stitched, (page1, []))"

definition second_submit :: "TimelineUpdateForm \<times> RequestDetails \<times> call_log" where
  "second_submit =
     tf_handleSubmit (rd_onSubmit logged_postTimeline logged_updateRequest)
       ((fst first_submit)\<lparr>tf_message := ''again''\<rparr>, snd first_submit)"

section \<open>What the proposal update touches\<close>

lemma fold_set_proposal_column_id:
  "dp_proposal_id (fold set_proposal_column updates r) = dp_proposal_id r"
  by (induction updates arbitrary: r) auto

lemma update_keeps_other_rows:
  assumes "\<And>r. k (f r) = k r"
  shows "filter (\<lambda>r. k r \<noteq> x) (map (\<lambda>r. if k r = x then f r else r) xs)
           = filter (\<lambda>r. k r \<noteq> x) xs"
  by (induction xs) (auto simp: assms)

lemma update_designer_proposal_frame:
  "customization_requests (snd (update_designer_proposal proposalId updates d))
     = customization_requests d
   \<and> filter (\<lambda>r. dp_proposal_id r \<noteq> proposalId)
        (designer_proposals (snd (update_designer_proposal proposalId updates d)))
     = filter (\<lambda>r. dp_proposal_id r \<noteq> proposalId) (designer_proposals d)"
  by (simp add: update_designer_proposal_def Let_def update_keeps_other_rows
        fold_set_proposal_column_id split: list.splits)

lemma put_designer_proposals_frame:
  "customization_requests (snd (put_designer_proposals proposalId b d))
     = customization_requests d
   \<and> filter (\<lambda>r. dp_proposal_id r \<noteq> proposalId)
        (designer_proposals (snd (put_designer_proposals proposalId b d)))
     = filter (\<lambda>r. dp_proposal_id r \<noteq> proposalId) (designer_proposals d)"
  unfolding put_designer_proposals_def Let_def
  by (simp add: update_designer_proposal_frame)

section \<open>What accepting and rejecting do to the page's proposals\<close>

lemma mark_accepted_status:
  "prop_status (mark_accepted proposalId q) =
     (if prop_id q = proposalId then ''accepted'' else ''rejected'')"
  by (simp add: mark_accepted_def)

lemma mark_accepted_id: "prop_id (mark_accepted proposalId q) = prop_id q"
  by (simp add: mark_accepted_def)

lemma accept_finish_keeps:
  "rd_proposals (fst (accept_finish fetchTimeline (p, s))) = rd_proposals p
   \<and> rd_request (fst (accept_finish fetchTimeline (p, s))) = rd_request p
   \<and> rd_user (fst (accept_finish fetchTimeline (p, s))) = rd_user p
   \<and> Toast ''Proposal accepted'' Default
        \<in> set (rd_toasts (fst (accept_finish fetchTimeline (p, s))))"
  by (simp add: accept_finish_def rd_toast_def Let_def split: prod.splits outcome.splits)

lemma accept_finish_backend:
  "snd (accept_finish fetchTimeline (p, s)) = snd (fetchTimeline (rd_id p) s)"
  by (simp add: accept_finish_def rd_toast_def Let_def split: prod.splits outcome.splits)

lemma handleAcceptProposal_proposals:
  "rd_proposals (fst (handleAcceptProposal updateProposal updateRequest fetchTimeline
      proposalId (p, s)))
     = (case fst (updateProposal proposalId [(''status'', JStr ''accepted'')] s) of
          Rejected \<Rightarrow> rd_proposals p
        | Resolved x \<Rightarrow> map (mark_accepted proposalId) (rd_proposals p))"
  by (simp add: handleAcceptProposal_def Let_def rd_toast_def accept_finish_keeps
        split: prod.splits outcome.splits option.splits)

lemma handleRejectProposal_proposals:
  "rd_proposals (fst (handleRejectProposal updateProposal proposalId (p, s)))
     = (case fst (updateProposal proposalId [(''status'', JStr ''rejected'')] s) of
          Rejected \<Rightarrow> rd_proposals p
        | Resolved x \<Rightarrow> map (mark_rejected proposalId) (rd_proposals p))"
  by (simp add: handleRejectProposal_def Let_def rd_toast_def
        split: prod.splits outcome.splits)

lemma handleSubmitProposal_proposals:
  "rd_proposals (fst (handleSubmitProposal createProposal pd (p, s))) = rd_proposals p
   \<or> (\<exists>b newProposal s'. createProposal b s = (Resolved newProposal, s')
         \<and> rd_proposals (fst (handleSubmitProposal createProposal pd (p, s)))
             = rd_proposals p @ [newProposal])"
  by (auto simp: handleSubmitProposal_def Let_def rd_toast_def
        split: option.splits prod.splits outcome.splits)

lemma accepted_none:
  "proposalId \<notin> prop_id ` set ps \<Longrightarrow>
   filter (\<lambda>q. prop_status q = ''accepted'') (map (mark_accepted proposalId) ps) = []"
  by (induction ps) (auto simp: mark_accepted_def)

lemma accepted_at_most_one:
  "distinct (map prop_id ps) \<Longrightarrow>
   length (filter (\<lambda>q. prop_status q = ''accepted'') (map (mark_accepted proposalId) ps)) \<le> 1"
proof (induction ps)
  case Nil
  then show ?case by simp
next
  case (Cons q ps)
  show ?case
  proof (cases "prop_id q = proposalId")
    case True
    with Cons.prems have "proposalId \<notin> prop_id ` set ps" by auto
    then show ?thesis by (simp add: accepted_none)
  next
    case False
    with Cons show ?thesis by (simp add: mark_accepted_def)
  qed
qed

lemma rejected_no_more_accepted:
  "length (filter (\<lambda>q. prop_status q = ''accepted'') (map (mark_rejected proposalId) ps))
     \<le> length (filter (\<lambda>q. prop_status q = ''accepted'') ps)"
  by (induction ps) (auto simp: mark_rejected_def)

section \<open>The accept path and the request's status\<close>

lemma update_designer_proposal_ignores_requests:
  "update_designer_proposal proposalId updates (d\<lparr>customization_requests := rs\<rparr>) =
     (fst (update_designer_proposal proposalId updates d),
      (snd (update_designer_proposal proposalId updates d))\<lparr>customization_requests := rs\<rparr>)"
  by (simp add: update_designer_proposal_def Let_def split: list.splits)

lemma put_designer_proposals_ignores_requests:
  "put_designer_proposals proposalId b (d\<lparr>customization_requests := rs\<rparr>) =
     (fst (put_designer_proposals proposalId b d),
      (snd (put_designer_proposals proposalId b d))\<lparr>customization_requests := rs\<rparr>)"
  by (simp add: put_designer_proposals_def Let_def update_designer_proposal_ignores_requests)

lemma handleAcceptProposal_ignores_status:
  assumes "updateProposal proposalId [(''status'', JStr ''accepted'')] s = (Resolved x, s1)"
    and "find (\<lambda>q. prop_id q = proposalId) (rd_proposals p) = Some acceptedProposal"
  shows "handleAcceptProposal updateProposal updateRequest fetchTimeline proposalId
           (p\<lparr>rd_request := Some (request\<lparr>req_status := st\<rparr>)\<rparr>, s)
         = handleAcceptProposal updateProposal updateRequest fetchTimeline proposalId
           (p\<lparr>rd_request := Some request\<rparr>, s)"
  using assms by (simp add: handleAcceptProposal_def Let_def assign_request_def assigned_body_def)

section \<open>C1: accepting a proposal\<close>

text \<open>
  C1 as stated fails on the update endpoint. In the store \<open>db0\<close>, request 7 is open
  (\<^verbatim>\<open>Pending\<close>) and has the pending proposals 1 and 2. Accepting proposal 1
  (\<^verbatim>\<open>PUT /api/designer-proposals/1\<close> with status \<^verbatim>\<open>Accepted\<close>) succeeds with status 200,
  and the store it leaves has proposal 1 accepted while proposal 2 is still pending and
  the request's row is as it was.
\<close>

theorem accept_leaves_siblings_and_request:
  "put_designer_proposals ''1'' [(''status'', JStr ''Accepted'')] db0 =
     (respond 200 True ''Designer proposal updated successfully''
        (Some (row_p1\<lparr>dp_status := JStr ''Accepted''\<rparr>)),
      \<lparr>designer_proposals = [row_p1\<lparr>dp_status := JStr ''Accepted''\<rparr>, row_p2],
       customization_requests = [row_r7], payments = [], chat = []\<rparr>)
   \<and> dp_request_id row_p2 = dp_request_id row_p1
   \<and> dp_status row_p2 = JStr ''Pending''
   \<and> cr_status row_r7 = JStr ''Pending''"
  by (simp add: put_designer_proposals_def update_designer_proposal_def Let_def get_field_def
        proposal_statuses_def db0_def row_p1_def row_p2_def row_r7_def)

text \<open>
  C1 (as amended). For a page that holds the request and lists the proposal,
  \<^verbatim>\<open>handleAcceptProposal\<close> makes two separate backend calls, the proposal update
  (\<^verbatim>\<open>{status: "accepted"}\<close>) first and then the request update, and they are not one
  atomic unit. When both resolve, the page ends with the same proposals in the same order,
  the target accepted and every other one rejected, with the request assigned and its
  \<^verbatim>\<open>acceptedProposalId\<close>, \<^verbatim>\<open>acceptedPrice\<close>, \<^verbatim>\<open>designerId\<close> and \<^verbatim>\<open>designerName\<close>
  taken from the accepted proposal, and with the toast \<^verbatim>\<open>Proposal accepted\<close>; the
  backend is left in the state the request update produced from the state the proposal
  update had produced, as the timeline fetch then leaves it. When the proposal update
  resolves and the request update is rejected, the page's proposals stay accepted and
  rejected and the backend stays as the refused request update left it: the proposal
  update is not taken back. When the proposal update is rejected, nothing on the page is
  accepted, rejected or assigned and no other call is made. The proposal update endpoint
  changes no row of another proposal and no request row, whatever its body.
\<close>

theorem handleAcceptProposal_page_state:
  assumes "rd_request p = Some request"
    and "find (\<lambda>q. prop_id q = proposalId) (rd_proposals p) = Some acceptedProposal"
    and "result = handleAcceptProposal updateProposal updateRequest fetchTimeline
                    proposalId (p, s)"
  shows "(updateProposal proposalId [(''status'', JStr ''accepted'')] s = (Resolved x, s1)
          \<and> updateRequest (req_id request) (assigned_body proposalId acceptedProposal) s1
              = (Resolved y, s2) \<longrightarrow>
            map prop_id (rd_proposals (fst result)) = map prop_id (rd_proposals p)
            \<and> (\<forall>q \<in> set (rd_proposals (fst result)).
                 prop_status q = (if prop_id q = proposalId then ''accepted'' else ''rejected''))
            \<and> rd_request (fst result) =
                 Some (request\<lparr>req_status := ''assigned'',
                               req_acceptedProposalId := Some proposalId,
                               req_acceptedPrice := Some (prop_price acceptedProposal),
                               req_designerId := Some (prop_designerId acceptedProposal),
                               req_designerName := Some (prop_designerName acceptedProposal)\<rparr>)
            \<and> Toast ''Proposal accepted'' Default \<in> set (rd_toasts (fst result))
            \<and> snd result = snd (fetchTimeline (rd_id p) s2))
       \<and> (updateProposal proposalId [(''status'', JStr ''accepted'')] s = (Resolved x, s1)
          \<and> updateRequest (req_id request) (assigned_body proposalId acceptedProposal) s1
              = (Rejected, s2) \<longrightarrow>
            (\<forall>q \<in> set (rd_proposals (fst result)).
               prop_status q = (if prop_id q = proposalId then ''accepted'' else ''rejected''))
            \<and> snd result = s2)
       \<and> (updateProposal proposalId [(''status'', JStr ''accepted'')] s = (Rejected, s1) \<longrightarrow>
            rd_proposals (fst result) = rd_proposals p
            \<and> rd_request (fst result) = rd_request p
            \<and> snd result = s1)
       \<and> customization_requests (snd (put_designer_proposals proposalId b d))
            = customization_requests d
       \<and> filter (\<lambda>r. dp_proposal_id r \<noteq> proposalId)
            (designer_proposals (snd (put_designer_proposals proposalId b d)))
          = filter (\<lambda>r. dp_proposal_id r \<noteq> proposalId) (designer_proposals d)"
proof (intro conjI impI)
  assume ok: "updateProposal proposalId [(''status'', JStr ''accepted'')] s = (Resolved x, s1)
          \<and> updateRequest (req_id request) (assigned_body proposalId acceptedProposal) s1
              = (Resolved y, s2)"
  let ?p2 = "p\<lparr>rd_proposals := map (mark_accepted proposalId) (rd_proposals p),
               rd_request := Some (assign_request request proposalId acceptedProposal)\<rparr>"
  have run: "result = accept_finish fetchTimeline (?p2, s2)"
    using assms ok by (simp add: handleAcceptProposal_def Let_def)
  have props: "rd_proposals (fst result) = map (mark_accepted proposalId) (rd_proposals p)"
    and req: "rd_request (fst result)
                = Some (assign_request request proposalId acceptedProposal)"
    and toast: "Toast ''Proposal accepted'' Default \<in> set (rd_toasts (fst result))"
    using accept_finish_keeps [of fetchTimeline ?p2 s2] by (simp_all add: run)
  show "map prop_id (rd_proposals (fst result)) = map prop_id (rd_proposals p)"
    by (simp add: props mark_accepted_id comp_def)
  show "\<forall>q \<in> set (rd_proposals (fst result)).
          prop_status q = (if prop_id q = proposalId then ''accepted'' else ''rejected'')"
    by (auto simp: props mark_accepted_status mark_accepted_id)
  show "rd_request (fst result) =
          Some (request\<lparr>req_status := ''assigned'',
                        req_acceptedProposalId := Some proposalId,
                        req_acceptedPrice := Some (prop_price acceptedProposal),
                        req_designerId := Some (prop_designerId acceptedProposal),
                        req_designerName := Some (prop_designerName acceptedProposal)\<rparr>)"
    by (simp add: req assign_request_def)
  show "Toast ''Proposal accepted'' Default \<in> set (rd_toasts (fst result))"
    by (rule toast)
  show "snd result = snd (fetchTimeline (rd_id p) s2)"
    by (simp add: run accept_finish_backend)
next
  assume no: "updateProposal proposalId [(''status'', JStr ''accepted'')] s = (Resolved x, s1)
          \<and> updateRequest (req_id request) (assigned_body proposalId acceptedProposal) s1
              = (Rejected, s2)"
  then have "rd_proposals (fst result) = map (mark_accepted proposalId) (rd_proposals p)"
    using assms(3) by (simp add: handleAcceptProposal_proposals)
  then show "\<forall>q \<in> set (rd_proposals (fst result)).
          prop_status q = (if prop_id q = proposalId then ''accepted'' else ''rejected'')"
    by (auto simp: mark_accepted_status mark_accepted_id)
  show "snd result = s2"
    using assms no by (simp add: handleAcceptProposal_def Let_def)
next
  assume "updateProposal proposalId [(''status'', JStr ''accepted'')] s = (Rejected, s1)"
  then have "result = (rd_toast (Toast ''Error'' Destructive) p, s1)"
    using assms(3) by (simp add: handleAcceptProposal_def Let_def)
  then show "rd_proposals (fst result) = rd_proposals p"
    and "rd_request (fst result) = rd_request p" and "snd result = s1"
    by (simp_all add: rd_toast_def)
next
  show "customization_requests (snd (put_designer_proposals proposalId b d))
            = customization_requests d"
    using put_designer_proposals_frame [of proposalId b d] by simp
  show "filter (\<lambda>r. dp_proposal_id r \<noteq> proposalId)
            (designer_proposals (snd (put_designer_proposals proposalId b d)))
          = filter (\<lambda>r. dp_proposal_id r \<noteq> proposalId) (designer_proposals d)"
    using put_designer_proposals_frame [of proposalId b d] by simp
qed

text \<open>
  The scenario of the specification on the page: the customer accepts proposal 1 of
  request 7. A backend that takes both updates gets the proposal update, then the request
  update, then the timeline fetch; one that refuses the request update has got the
  proposal update before. The server of this repository rejects the proposal update: its
  store and the page's proposals stay as they were.
\<close>

theorem handleAcceptProposal_page_state_witness:
  "accept_offered page0 proposal_p1
   \<and> map prop_status (rd_proposals (fst (handleAcceptProposal
          logged_updateProposal
          logged_updateRequest
          logged_fetchTimeline ''1'' (page0, []))))
     = [''accepted'', ''rejected'']
   \<and> rd_request (fst (handleAcceptProposal
          logged_updateProposal
          logged_updateRequest
          logged_fetchTimeline ''1'' (page0, []))) = Some request_assigned
   \<and> req_status request_assigned = ''assigned''
   \<and> req_acceptedPrice request_assigned = Some 100
   \<and> req_designerId request_assigned = Some ''21''
   \<and> snd (handleAcceptProposal
          logged_updateProposal
          logged_updateRequest
          logged_fetchTimeline ''1'' (page0, []))
     = [(''PUT /designer-proposals/1'', [(''status'', JStr ''accepted'')]),
        (''PUT /customization-requests/7'',
           [(''status'', JStr ''assigned''), (''acceptedProposalId'', JStr ''1''),
            (''acceptedPrice'', JNum 100), (''designerId'', JStr ''21''),
            (''designerName'', JStr ''Dev Iyer'')]),
        (''GET /api/timeline/7'', [])]
   \<and> snd (handleAcceptProposal logged_updateProposal refused_updateRequest
          logged_fetchTimeline ''1'' (page0, []))
     = [(''PUT /designer-proposals/1'', [(''status'', JStr ''accepted'')]),
        (''PUT /customization-requests/7'', assigned_body ''1'' proposal_p1)]
   \<and> snd (handleAcceptProposal proposalService_updateProposal (requestService_updateRequest 9)
          (\<lambda>i. resolves []) ''1'' (page0, db0)) = db0
   \<and> rd_proposals (fst (handleAcceptProposal proposalService_updateProposal
          (requestService_updateRequest 9) (\<lambda>i. resolves []) ''1'' (page0, db0)))
     = [proposal_p1, proposal_p2]
   \<and> customization_requests
        (snd (put_designer_proposals ''1'' [(''status'', JStr ''Accepted'')] db0)) = [row_r7]"
proof -
  have rq: "rd_request page0 = Some request_r"
    and fd: "find (\<lambda>q. prop_id q = ''1'') (rd_proposals page0) = Some proposal_p1"
    and ps: "rd_proposals page0 = [proposal_p1, proposal_p2]"
    and rid: "rd_id page0 = Some ''7''"
    by (simp_all add: page0_def proposal_p1_def)
  have c1: "logged_updateProposal ''1''
              [(''status'', JStr ''accepted'')] []
            = (Resolved (), [(''PUT /designer-proposals/1'', [(''status'', JStr ''accepted'')])])"
    by (simp add: logged_updateProposal_def)
  have c2: "logged_updateRequest (req_id request_r)
              (assigned_body ''1'' proposal_p1)
              [(''PUT /designer-proposals/1'', [(''status'', JStr ''accepted'')])]
            = (Resolved (),
               [(''PUT /designer-proposals/1'', [(''status'', JStr ''accepted'')]),
                (''PUT /customization-requests/7'', assigned_body ''1'' proposal_p1)])"
    by (simp add: logged_updateRequest_def request_r_def)
  have rej: "proposalService_updateProposal ''1'' [(''status'', JStr ''accepted'')] db0
               = (Rejected, db0)"
    by (simp add: proposalService_updateProposal_def axios_def put_designer_proposals_def
          Let_def get_field_def proposal_statuses_def respond_def)
  note good = handleAcceptProposal_page_state [OF rq fd refl,
      where updateProposal = logged_updateProposal
        and updateRequest = logged_updateRequest
        and fetchTimeline = logged_fetchTimeline and s = "[]"
        and x = "()" and y = "()"
        and ?s1.0 = "[(''PUT /designer-proposals/1'', [(''status'', JStr ''accepted'')])]"
        and ?s2.0 = "[(''PUT /designer-proposals/1'', [(''status'', JStr ''accepted'')]),
                (''PUT /customization-requests/7'', assigned_body ''1'' proposal_p1)]"
        and b = "[(''status'', JStr ''Accepted'')]" and d = db0]
  have c3: "refused_updateRequest (req_id request_r) (assigned_body ''1'' proposal_p1)
              [(''PUT /designer-proposals/1'', [(''status'', JStr ''accepted'')])]
            = (Rejected,
               [(''PUT /designer-proposals/1'', [(''status'', JStr ''accepted'')]),
                (''PUT /customization-requests/7'', assigned_body ''1'' proposal_p1)])"
    by (simp add: refused_updateRequest_def request_r_def)
  have off: "accept_offered page0 proposal_p1"
    by (simp add: accept_offered_def isCustomer_def isUsersRequest_def page0_def user_c_def
          request_r_def proposal_p1_def)
  note part = handleAcceptProposal_page_state [OF rq fd refl,
      where updateProposal = logged_updateProposal
        and updateRequest = refused_updateRequest
        and fetchTimeline = logged_fetchTimeline and s = "[]" and x = "()"
        and ?s1.0 = "[(''PUT /designer-proposals/1'', [(''status'', JStr ''accepted'')])]"
        and ?s2.0 = "[(''PUT /designer-proposals/1'', [(''status'', JStr ''accepted'')]),
                (''PUT /customization-requests/7'', assigned_body ''1'' proposal_p1)]"
        and b = "[(''status'', JStr ''Accepted'')]" and d = db0]
  have partial: "snd (handleAcceptProposal logged_updateProposal refused_updateRequest
          logged_fetchTimeline ''1'' (page0, []))
     = [(''PUT /designer-proposals/1'', [(''status'', JStr ''accepted'')]),
        (''PUT /customization-requests/7'', assigned_body ''1'' proposal_p1)]"
    using part c1 c3 by simp
  note bad = handleAcceptProposal_page_state [OF rq fd refl,
      where updateProposal = proposalService_updateProposal
        and updateRequest = "requestService_updateRequest 9"
        and fetchTimeline = "\<lambda>i. resolves []" and s = db0 and ?s1.0 = db0
        and b = "[(''status'', JStr ''Accepted'')]" and d = db0]
  have st: "map prop_status (rd_proposals (fst (handleAcceptProposal
          logged_updateProposal
          logged_updateRequest
          logged_fetchTimeline ''1'' (page0, []))))
     = [''accepted'', ''rejected'']"
    using good c1 c2 ps
    by (auto simp: map_eq_Cons_conv proposal_p1_def proposal_p2_def)
  show ?thesis
    using good bad c1 c2 rej st ps rid partial off
    by (simp add: request_assigned_def assign_request_def assigned_body_def proposal_p1_def
          request_r_def logged_fetchTimeline_def db0_def)
qed


section \<open>C2: at most one accepted proposal\<close>

text \<open>
  C2 as stated fails on the store: from \<open>db0\<close>, accepting proposal 1 and then proposal 2
  of the same request are both answered 200, and both rows end accepted.
\<close>

theorem two_accepted_proposals_of_one_request:
  "status_code (fst (put_designer_proposals ''1'' [(''status'', JStr ''Accepted'')] db0)) = 200
   \<and> status_code (fst (put_designer_proposals ''2'' [(''status'', JStr ''Accepted'')]
        (snd (put_designer_proposals ''1'' [(''status'', JStr ''Accepted'')] db0)))) = 200
   \<and> designer_proposals (snd (put_designer_proposals ''2'' [(''status'', JStr ''Accepted'')]
        (snd (put_designer_proposals ''1'' [(''status'', JStr ''Accepted'')] db0))))
      = [row_p1\<lparr>dp_status := JStr ''Accepted''\<rparr>, row_p2\<lparr>dp_status := JStr ''Accepted''\<rparr>]
   \<and> dp_request_id row_p1 = dp_request_id row_p2"
  by (simp add: put_designer_proposals_def update_designer_proposal_def Let_def get_field_def
        proposal_statuses_def db0_def row_p1_def row_p2_def respond_def)

text \<open>
  C2 (as amended). On the page, whose proposals are those of one request: if the listed
  proposals have distinct ids and at most one of them is accepted, then at most one is
  accepted after \<^verbatim>\<open>handleAcceptProposal\<close>, after \<^verbatim>\<open>handleRejectProposal\<close> and after
  \<^verbatim>\<open>handleSubmitProposal\<close>, whatever the backend answers, as long as a proposal it
  creates is not accepted from the start. (An accept whose update resolves leaves only
  proposals with the target's id accepted; a reject never makes a proposal accepted.)
\<close>

theorem page_keeps_one_accepted:
  assumes "distinct (map prop_id (rd_proposals p))"
    and "length (filter (\<lambda>q. prop_status q = ''accepted'') (rd_proposals p)) \<le> 1"
    and "\<And>b newProposal s'. createProposal b s = (Resolved newProposal, s') \<Longrightarrow>
           prop_status newProposal \<noteq> ''accepted''"
  shows "length (filter (\<lambda>q. prop_status q = ''accepted'')
           (rd_proposals (fst (handleAcceptProposal updateProposal updateRequest fetchTimeline
              proposalId (p, s))))) \<le> 1
       \<and> length (filter (\<lambda>q. prop_status q = ''accepted'')
           (rd_proposals (fst (handleRejectProposal updateProposal' proposalId (p, s))))) \<le> 1
       \<and> length (filter (\<lambda>q. prop_status q = ''accepted'')
           (rd_proposals (fst (handleSubmitProposal createProposal pd (p, s))))) \<le> 1"
proof (intro conjI)
  show "length (filter (\<lambda>q. prop_status q = ''accepted'')
           (rd_proposals (fst (handleAcceptProposal updateProposal updateRequest fetchTimeline
              proposalId (p, s))))) \<le> 1"
    using assms(1,2) accepted_at_most_one [of "rd_proposals p" proposalId]
    by (simp add: handleAcceptProposal_proposals split: outcome.splits)
next
  have "length (filter (\<lambda>q. prop_status q = ''accepted'')
           (map (mark_rejected proposalId) (rd_proposals p))) \<le> 1"
    using assms(2) rejected_no_more_accepted [of proposalId "rd_proposals p"] by linarith
  then show "length (filter (\<lambda>q. prop_status q = ''accepted'')
           (rd_proposals (fst (handleRejectProposal updateProposal' proposalId (p, s))))) \<le> 1"
    using assms(2) by (simp add: handleRejectProposal_proposals split: outcome.splits)
next
  show "length (filter (\<lambda>q. prop_status q = ''accepted'')
           (rd_proposals (fst (handleSubmitProposal createProposal pd (p, s))))) \<le> 1"
    using handleSubmitProposal_proposals [of createProposal pd p s] assms(2,3) by auto
qed

theorem page_keeps_one_accepted_witness:
  "distinct (map prop_id (rd_proposals page0))
   \<and> length (filter (\<lambda>q. prop_status q = ''accepted'') (rd_proposals page0)) = 0
   \<and> length (filter (\<lambda>q. prop_status q = ''accepted'')
        (rd_proposals (fst (handleAcceptProposal (\<lambda>i b. resolves ()) (\<lambda>i b. resolves ())
           (\<lambda>i. resolves []) ''1'' (page0, ()))))) \<le> 1
   \<and> length (filter (\<lambda>q. prop_status q = ''accepted'')
        (rd_proposals (fst (handleRejectProposal (\<lambda>i b. resolves ()) ''1'' (page0, ()))))) \<le> 1
   \<and> length (filter (\<lambda>q. prop_status q = ''accepted'')
        (rd_proposals (fst (handleSubmitProposal (\<lambda>b. resolves (proposal_p2\<lparr>prop_id := ''3''\<rparr>))
           \<lparr>pd_price = 90, pd_estimatedTime = ''1 week'', pd_message = ''hello''\<rparr>
           (page0, ()))))) \<le> 1"
proof -
  have d: "distinct (map prop_id (rd_proposals page0))"
    by (simp add: page0_def proposal_p1_def proposal_p2_def)
  have n: "length (filter (\<lambda>q. prop_status q = ''accepted'') (rd_proposals page0)) = 0"
    by (simp add: page0_def proposal_p1_def proposal_p2_def)
  from n have n': "length (filter (\<lambda>q. prop_status q = ''accepted'') (rd_proposals page0)) \<le> 1"
    by simp
  have c: "\<And>b newProposal s'.
      (\<lambda>b. resolves (proposal_p2\<lparr>prop_id := ''3''\<rparr>)) b () = (Resolved newProposal, s') \<Longrightarrow>
      prop_status newProposal \<noteq> ''accepted''"
    by (auto simp: resolves_def proposal_p2_def)
  show ?thesis
    using d n page_keeps_one_accepted [where p = page0 and s = "()"
        and createProposal = "\<lambda>b. resolves (proposal_p2\<lparr>prop_id := ''3''\<rparr>)"
        and updateProposal = "\<lambda>i b. resolves ()"
        and updateRequest = "\<lambda>i b. resolves ()" and fetchTimeline = "\<lambda>i. resolves []"
        and proposalId = "''1''" and updateProposal' = "\<lambda>i b. resolves ()"
        and pd = "\<lparr>pd_price = 90, pd_estimatedTime = ''1 week'', pd_message = ''hello''\<rparr>",
        OF d n' c]
    by simp
qed

section \<open>C3: a second proposal by the same designer\<close>

text \<open>
  C3 as stated fails on \<^verbatim>\<open>POST /api/designer-proposals\<close>. In \<open>db0\<close> designer 21 has
  the pending proposal 1 on request 7; a second proposal of designer 21 for request 7 is
  answered 201 and stored as a third row.
\<close>

theorem second_proposal_is_created:
  "post_designer_proposals ''3'' 5
     [(''request_id'', JNum 7), (''merchant_id'', JNum 21), (''price'', JNum 90)] db0 =
     (respond 201 True ''Designer proposal created successfully''
        (Some \<lparr>dp_proposal_id = ''3'', dp_request_id = JNum 7, dp_merchant_id = JNum 21,
               dp_price = JNum 90, dp_status = JStr ''Pending'', dp_created_at = 5\<rparr>),
      \<lparr>designer_proposals =
         [row_p1, row_p2,
          \<lparr>dp_proposal_id = ''3'', dp_request_id = JNum 7, dp_merchant_id = JNum 21,
           dp_price = JNum 90, dp_status = JStr ''Pending'', dp_created_at = 5\<rparr>],
       customization_requests = [row_r7], payments = [], chat = []\<rparr>)
   \<and> dp_request_id row_p1 = JNum 7 \<and> dp_merchant_id row_p1 = JNum 21
   \<and> dp_status row_p1 = JStr ''Pending''"
  by (simp add: post_designer_proposals_def Let_def get_field_def get_field_default_def
        proposal_statuses_def db0_def row_p1_def)

text \<open>
  C3 (as amended). On the request details page, when the signed-in designer already has a
  proposal in the page's list (of any status, a rejected one too),
  \<^verbatim>\<open>handleSubmitProposal\<close> shows the destructive toast \<^verbatim>\<open>Proposal already submitted\<close>,
  calls no backend service (the backend's state is the one it started from) and leaves
  the page's proposals as they were.
\<close>

theorem handleSubmitProposal_already_submitted:
  assumes "rd_user p = Some u"
    and "rd_request p = Some r"
    and "q \<in> set (rd_proposals p)"
    and "prop_designerId q = user_id u"
  shows "handleSubmitProposal createProposal pd (p, s) =
           (p\<lparr>rd_toasts := rd_toasts p @ [Toast ''Proposal already submitted'' Destructive]\<rparr>, s)
       \<and> rd_proposals (fst (handleSubmitProposal createProposal pd (p, s))) = rd_proposals p"
proof -
  have "find (\<lambda>q. prop_designerId q = user_id u) (rd_proposals p) \<noteq> None"
    using assms(3,4) by (auto simp: find_None_iff)
  then obtain e where "find (\<lambda>q. prop_designerId q = user_id u) (rd_proposals p) = Some e"
    by auto
  then show ?thesis
    using assms(1,2) by (simp add: handleSubmitProposal_def Let_def rd_toast_def)
qed

text \<open>
  Designer 21 on the page of request 7, where proposal 1 is theirs; the create service
  given here would store the body it gets, and the store stays empty.
\<close>

theorem handleSubmitProposal_already_submitted_witness:
  "rd_user (page0\<lparr>rd_user := Some user_d1\<rparr>) = Some user_d1
   \<and> proposal_p1 \<in> set (rd_proposals (page0\<lparr>rd_user := Some user_d1\<rparr>))
   \<and> prop_designerId proposal_p1 = user_id user_d1
   \<and> handleSubmitProposal (\<lambda>b s. (Resolved proposal_p2, b # s))
        \<lparr>pd_price = 90, pd_estimatedTime = ''1 week'', pd_message = ''again''\<rparr>
        (page0\<lparr>rd_user := Some user_d1\<rparr>, []) =
       (page0\<lparr>rd_user := Some user_d1,
               rd_toasts := [Toast ''Proposal already submitted'' Destructive]\<rparr>, [])"
proof -
  have u: "rd_user (page0\<lparr>rd_user := Some user_d1\<rparr>) = Some user_d1" by simp
  have r: "rd_request (page0\<lparr>rd_user := Some user_d1\<rparr>) = Some request_r"
    by (simp add: page0_def)
  have m: "proposal_p1 \<in> set (rd_proposals (page0\<lparr>rd_user := Some user_d1\<rparr>))"
    by (simp add: page0_def)
  have e: "prop_designerId proposal_p1 = user_id user_d1"
    by (simp add: proposal_p1_def user_d1_def)
  show ?thesis
    using u m e handleSubmitProposal_already_submitted [OF u r m e,
        of "\<lambda>b s. (Resolved proposal_p2, b # s)"
           "\<lparr>pd_price = 90, pd_estimatedTime = ''1 week'', pd_message = ''again''\<rparr>" "[]"]
    by (simp add: page0_def)
qed

section \<open>C4: accepting on a request that is not open\<close>

text \<open>
  C4 as stated fails on the update endpoint. In \<open>db1\<close> request 7 is no longer open
  (its status is \<^verbatim>\<open>Accepted\<close>, proposal 1 being the accepted one); accepting proposal 2
  is answered 200 and changes its row.
\<close>

theorem accept_on_assigned_request_succeeds:
  "cr_status (hd (customization_requests db1)) = JStr ''Accepted''
   \<and> put_designer_proposals ''2'' [(''status'', JStr ''Accepted'')] db1 =
       (respond 200 True ''Designer proposal updated successfully''
          (Some (row_p2\<lparr>dp_status := JStr ''Accepted''\<rparr>)),
        \<lparr>designer_proposals =
           [row_p1\<lparr>dp_status := JStr ''Accepted''\<rparr>, row_p2\<lparr>dp_status := JStr ''Accepted''\<rparr>],
         customization_requests = [row_r7\<lparr>cr_status := JStr ''Accepted''\<rparr>],
         payments = [], chat = []\<rparr>)"
  by (simp add: put_designer_proposals_def update_designer_proposal_def Let_def get_field_def
        proposal_statuses_def db1_def row_p1_def row_p2_def row_r7_def)

text \<open>
  C4 (as amended). The accept path does not look at the request's status.
  \<^verbatim>\<open>handleAcceptProposal\<close> fails when a backend update is rejected. When the proposal
  update is rejected, the page is left as it was but for the \<^verbatim>\<open>Error\<close> toast (its
  proposals and its request are unchanged) and no further backend call is made. When the
  proposal update has resolved and the request update is rejected, nothing is taken back:
  the page keeps the target accepted, the other proposals rejected and the request
  assigned, gets the \<^verbatim>\<open>Error\<close> toast only, and the timeline is not fetched. When the
  proposal update resolves and the proposal is listed, the handler does the same whatever
  the status of the page's request is; afterwards no proposal of the page is pending, so
  the page offers no Accept button for any of them. The answer of the proposal update
  endpoint and what it does to the proposals do not depend on the stored requests.
\<close>

theorem handleAcceptProposal_ignores_request_status:
  "(updateProposal proposalId [(''status'', JStr ''accepted'')] s = (Rejected, s1) \<longrightarrow>
      handleAcceptProposal updateProposal updateRequest fetchTimeline proposalId (p, s) =
        (p\<lparr>rd_toasts := rd_toasts p @ [Toast ''Error'' Destructive]\<rparr>, s1))
   \<and> (updateProposal proposalId [(''status'', JStr ''accepted'')] s = (Resolved x, s1)
        \<and> rd_request p = Some request
        \<and> find (\<lambda>q. prop_id q = proposalId) (rd_proposals p) = Some acceptedProposal
        \<and> updateRequest (req_id request) (assigned_body proposalId acceptedProposal) s1
            = (Rejected, s2) \<longrightarrow>
      handleAcceptProposal updateProposal updateRequest fetchTimeline proposalId (p, s) =
        (p\<lparr>rd_proposals := map (mark_accepted proposalId) (rd_proposals p),
           rd_request :=
             Some (request\<lparr>req_status := ''assigned'',
                           req_acceptedProposalId := Some proposalId,
                           req_acceptedPrice := Some (prop_price acceptedProposal),
                           req_designerId := Some (prop_designerId acceptedProposal),
                           req_designerName := Some (prop_designerName acceptedProposal)\<rparr>),
           rd_toasts := rd_toasts p @ [Toast ''Error'' Destructive]\<rparr>, s2))
   \<and> (updateProposal proposalId [(''status'', JStr ''accepted'')] s = (Resolved x, s1)
        \<and> find (\<lambda>q. prop_id q = proposalId) (rd_proposals p) = Some acceptedProposal \<longrightarrow>
      handleAcceptProposal updateProposal updateRequest fetchTimeline proposalId
        (p\<lparr>rd_request := Some (request\<lparr>req_status := st\<rparr>)\<rparr>, s)
      = handleAcceptProposal updateProposal updateRequest fetchTimeline proposalId
        (p\<lparr>rd_request := Some request\<rparr>, s))
   \<and> (updateProposal proposalId [(''status'', JStr ''accepted'')] s = (Resolved x, s1) \<longrightarrow>
        (\<forall>q \<in> set (rd_proposals (fst (handleAcceptProposal updateProposal updateRequest
                     fetchTimeline proposalId (p, s)))).
           prop_status q \<noteq> ''pending''
           \<and> \<not> accept_offered (fst (handleAcceptProposal updateProposal updateRequest
                     fetchTimeline proposalId (p, s))) q))
   \<and> put_designer_proposals proposalId b (d\<lparr>customization_requests := rs\<rparr>) =
        (fst (put_designer_proposals proposalId b d),
         (snd (put_designer_proposals proposalId b d))\<lparr>customization_requests := rs\<rparr>)"
proof (intro conjI impI)
  assume "updateProposal proposalId [(''status'', JStr ''accepted'')] s = (Rejected, s1)"
  then show "handleAcceptProposal updateProposal updateRequest fetchTimeline proposalId (p, s) =
        (p\<lparr>rd_toasts := rd_toasts p @ [Toast ''Error'' Destructive]\<rparr>, s1)"
    by (simp add: handleAcceptProposal_def Let_def rd_toast_def)
next
  assume "updateProposal proposalId [(''status'', JStr ''accepted'')] s = (Resolved x, s1)
        \<and> rd_request p = Some request
        \<and> find (\<lambda>q. prop_id q = proposalId) (rd_proposals p) = Some acceptedProposal
        \<and> updateRequest (req_id request) (assigned_body proposalId acceptedProposal) s1
            = (Rejected, s2)"
  then show "handleAcceptProposal updateProposal updateRequest fetchTimeline proposalId (p, s) =
        (p\<lparr>rd_proposals := map (mark_accepted proposalId) (rd_proposals p),
           rd_request :=
             Some (request\<lparr>req_status := ''assigned'',
                           req_acceptedProposalId := Some proposalId,
                           req_acceptedPrice := Some (prop_price acceptedProposal),
                           req_designerId := Some (prop_designerId acceptedProposal),
                           req_designerName := Some (prop_designerName acceptedProposal)\<rparr>),
           rd_toasts := rd_toasts p @ [Toast ''Error'' Destructive]\<rparr>, s2)"
    by (simp add: handleAcceptProposal_def Let_def rd_toast_def assign_request_def)
next
  assume "updateProposal proposalId [(''status'', JStr ''accepted'')] s = (Resolved x, s1)
        \<and> find (\<lambda>q. prop_id q = proposalId) (rd_proposals p) = Some acceptedProposal"
  then show "handleAcceptProposal updateProposal updateRequest fetchTimeline proposalId
        (p\<lparr>rd_request := Some (request\<lparr>req_status := st\<rparr>)\<rparr>, s)
      = handleAcceptProposal updateProposal updateRequest fetchTimeline proposalId
        (p\<lparr>rd_request := Some request\<rparr>, s)"
    by (simp add: handleAcceptProposal_ignores_status)
next
  assume "updateProposal proposalId [(''status'', JStr ''accepted'')] s = (Resolved x, s1)"
  then have "rd_proposals (fst (handleAcceptProposal updateProposal updateRequest
                     fetchTimeline proposalId (p, s)))
             = map (mark_accepted proposalId) (rd_proposals p)"
    by (simp add: handleAcceptProposal_proposals)
  then show "\<forall>q \<in> set (rd_proposals (fst (handleAcceptProposal updateProposal updateRequest
                     fetchTimeline proposalId (p, s)))).
           prop_status q \<noteq> ''pending''
           \<and> \<not> accept_offered (fst (handleAcceptProposal updateProposal updateRequest
                     fetchTimeline proposalId (p, s))) q"
    by (auto simp: mark_accepted_status accept_offered_def)
next
  show "put_designer_proposals proposalId b (d\<lparr>customization_requests := rs\<rparr>) =
        (fst (put_designer_proposals proposalId b d),
         (snd (put_designer_proposals proposalId b d))\<lparr>customization_requests := rs\<rparr>)"
    by (rule put_designer_proposals_ignores_requests)
qed

text \<open>
  On the page of request 7: against the server, whose update endpoint rejects the
  handler's body, the page keeps its proposals and request. With a backend that takes the
  proposal update and refuses the request update, the page ends accepted, rejected and
  assigned under the \<^verbatim>\<open>Error\<close> toast, and the backend has got the two updates and no
  timeline fetch. With a backend that takes the updates, the handler does on a completed
  request what it does on the open one, and no proposal is pending afterwards.
\<close>

theorem handleAcceptProposal_ignores_request_status_witness:
  "proposalService_updateProposal ''1'' [(''status'', JStr ''accepted'')] db1 = (Rejected, db1)
   \<and> handleAcceptProposal proposalService_updateProposal (requestService_updateRequest 9)
        (\<lambda>i. resolves []) ''1'' (page0, db1) =
       (page0\<lparr>rd_toasts := [Toast ''Error'' Destructive]\<rparr>, db1)
   \<and> handleAcceptProposal
        logged_updateProposal
        refused_updateRequest
        logged_fetchTimeline ''1'' (page0, []) =
       (page0\<lparr>rd_proposals := [proposal_p1\<lparr>prop_status := ''accepted''\<rparr>,
                                 proposal_p2\<lparr>prop_status := ''rejected''\<rparr>],
               rd_request := Some request_assigned,
               rd_toasts := [Toast ''Error'' Destructive]\<rparr>,
        [(''PUT /designer-proposals/1'', [(''status'', JStr ''accepted'')]),
         (''PUT /customization-requests/7'', assigned_body ''1'' proposal_p1)])
   \<and> handleAcceptProposal (\<lambda>i b. resolves ()) (\<lambda>i b. resolves ()) (\<lambda>i. resolves []) ''1''
        (page0\<lparr>rd_request := Some (request_r\<lparr>req_status := ''completed''\<rparr>)\<rparr>, ())
      = handleAcceptProposal (\<lambda>i b. resolves ()) (\<lambda>i b. resolves ()) (\<lambda>i. resolves []) ''1''
        (page0, ())
   \<and> map prop_status (rd_proposals (fst (handleAcceptProposal (\<lambda>i b. resolves ())
          (\<lambda>i b. resolves ()) (\<lambda>i. resolves []) ''1'' (page0, ())))) = [''accepted'', ''rejected'']
   \<and> \<not> accept_offered (fst (handleAcceptProposal (\<lambda>i b. resolves ())
          (\<lambda>i b. resolves ()) (\<lambda>i. resolves []) ''1'' (page0, ())))
          (proposal_p2\<lparr>prop_status := ''rejected''\<rparr>)
   \<and> fst (put_designer_proposals ''2'' [(''status'', JStr ''Accepted'')] db1)
      = fst (put_designer_proposals ''2'' [(''status'', JStr ''Accepted'')] db0)"
proof -
  have rej: "proposalService_updateProposal ''1'' [(''status'', JStr ''accepted'')] db1
               = (Rejected, db1)"
    by (simp add: proposalService_updateProposal_def axios_def put_designer_proposals_def
          Let_def get_field_def proposal_statuses_def respond_def)
  have res: "(\<lambda>i b. resolves ()) ''1'' [(''status'', JStr ''accepted'')] () = (Resolved (), ())"
    by (simp add: resolves_def)
  have rq: "rd_request page0 = Some request_r"
    and fnd: "find (\<lambda>q. prop_id q = ''1'') (rd_proposals page0) = Some proposal_p1"
    and pg: "page0\<lparr>rd_request := Some request_r\<rparr> = page0"
    and ts: "rd_toasts page0 = []"
    and ps: "map (mark_accepted ''1'') (rd_proposals page0)
               = [proposal_p1\<lparr>prop_status := ''accepted''\<rparr>,
                  proposal_p2\<lparr>prop_status := ''rejected''\<rparr>]"
    by (simp_all add: page0_def proposal_p1_def proposal_p2_def mark_accepted_def)
  have c1: "logged_updateProposal ''1''
              [(''status'', JStr ''accepted'')] []
            = (Resolved (), [(''PUT /designer-proposals/1'', [(''status'', JStr ''accepted'')])])"
    by (simp add: logged_updateProposal_def)
  have c2: "refused_updateRequest (req_id request_r)
              (assigned_body ''1'' proposal_p1)
              [(''PUT /designer-proposals/1'', [(''status'', JStr ''accepted'')])]
            = (Rejected,
               [(''PUT /designer-proposals/1'', [(''status'', JStr ''accepted'')]),
                (''PUT /customization-requests/7'', assigned_body ''1'' proposal_p1)])"
    by (simp add: refused_updateRequest_def request_r_def)
  note a = handleAcceptProposal_ignores_request_status [where
      updateProposal = proposalService_updateProposal and proposalId = "''1''" and s = db1
      and ?s1.0 = db1 and updateRequest = "requestService_updateRequest 9"
      and fetchTimeline = "\<lambda>i. resolves []" and p = page0]
  note b = handleAcceptProposal_ignores_request_status [where updateProposal = "\<lambda>i b. resolves ()"
      and proposalId = "''1''" and s = "()" and ?s1.0 = "()" and updateRequest = "\<lambda>i b. resolves ()"
      and fetchTimeline = "\<lambda>i. resolves []" and p = page0 and x = "()"
      and acceptedProposal = proposal_p1 and request = request_r and st = "''completed''"
      and b = "[(''status'', JStr ''Accepted'')]" and d = db0 and rs = "customization_requests db1"]
  note c = handleAcceptProposal_ignores_request_status [where
      updateProposal = logged_updateProposal
      and updateRequest = refused_updateRequest
      and fetchTimeline = logged_fetchTimeline
      and proposalId = "''1''" and s = "[]" and x = "()" and p = page0
      and request = request_r and acceptedProposal = proposal_p1
      and ?s1.0 = "[(''PUT /designer-proposals/1'', [(''status'', JStr ''accepted'')])]"
      and ?s2.0 = "[(''PUT /designer-proposals/1'', [(''status'', JStr ''accepted'')]),
                (''PUT /customization-requests/7'', assigned_body ''1'' proposal_p1)]"]
  have first: "handleAcceptProposal proposalService_updateProposal (requestService_updateRequest 9)
        (\<lambda>i. resolves []) ''1'' (page0, db1) =
       (page0\<lparr>rd_toasts := [Toast ''Error'' Destructive]\<rparr>, db1)"
    using a rej by (simp add: page0_def)
  have second: "handleAcceptProposal
        logged_updateProposal
        refused_updateRequest
        logged_fetchTimeline ''1'' (page0, []) =
       (page0\<lparr>rd_proposals := [proposal_p1\<lparr>prop_status := ''accepted''\<rparr>,
                                 proposal_p2\<lparr>prop_status := ''rejected''\<rparr>],
               rd_request := Some request_assigned,
               rd_toasts := [Toast ''Error'' Destructive]\<rparr>,
        [(''PUT /designer-proposals/1'', [(''status'', JStr ''accepted'')]),
         (''PUT /customization-requests/7'', assigned_body ''1'' proposal_p1)])"
    using c c1 c2 rq fnd ps ts
    by (simp add: request_assigned_def assign_request_def)
  have same: "handleAcceptProposal (\<lambda>i b. resolves ()) (\<lambda>i b. resolves ()) (\<lambda>i. resolves []) ''1''
        (page0\<lparr>rd_request := Some (request_r\<lparr>req_status := ''completed''\<rparr>)\<rparr>, ())
      = handleAcceptProposal (\<lambda>i b. resolves ()) (\<lambda>i b. resolves ()) (\<lambda>i. resolves []) ''1''
        (page0, ())"
    using b res fnd pg by simp
  have props: "rd_proposals (fst (handleAcceptProposal (\<lambda>i b. resolves ())
          (\<lambda>i b. resolves ()) (\<lambda>i. resolves []) ''1'' (page0, ())))
        = [proposal_p1\<lparr>prop_status := ''accepted''\<rparr>, proposal_p2\<lparr>prop_status := ''rejected''\<rparr>]"
    by (simp add: handleAcceptProposal_proposals resolves_def page0_def mark_accepted_def
          proposal_p1_def proposal_p2_def)
  have ans: "fst (put_designer_proposals ''2'' [(''status'', JStr ''Accepted'')] db1)
      = fst (put_designer_proposals ''2'' [(''status'', JStr ''Accepted'')] db0)"
    by (simp add: put_designer_proposals_def update_designer_proposal_def Let_def get_field_def
          proposal_statuses_def db0_def db1_def row_p1_def row_p2_def)
  show ?thesis
    using rej first second same props ans b res by simp
qed


section \<open>C5: a status that is already in the timeline\<close>

text \<open>
  C5 as stated fails on the request details page. The timeline of the assigned request 7
  is empty; the designer picks \<^verbatim>\<open>stitched\<close> in the update form and submits, and the
  update is appended. The selector no longer offers \<^verbatim>\<open>stitched\<close>, but the form still
  holds it (the status is not reset after a submit). With a new message the designer
  submits again: the update is posted and appended, the timeline holds two
  \<^verbatim>\<open>stitched\<close> updates, and both toasts are \<^verbatim>\<open>Timeline updated\<close>.
\<close>

theorem duplicate_status_is_appended:
  "update_form_offered page1
   \<and> update_form_offered (fst (snd first_submit))
   \<and> rd_timeline page1 = []
   \<and> ''stitched'' \<in> set (map so_value (filteredStatuses customStatuses []))
   \<and> fst first_submit = form_stitched\<lparr>tf_message := []\<rparr>
   \<and> map tu_status (rd_timeline (fst (snd first_submit))) = [''stitched'']
   \<and> ''stitched'' \<notin> set (map so_value (filteredStatuses customStatuses [''stitched'']))
   \<and> tf_status (fst first_submit) = ''stitched''
   \<and> map tu_status (rd_timeline (fst (snd second_submit))) = [''stitched'', ''stitched'']
   \<and> rd_toasts (fst (snd second_submit))
       = [Toast ''Timeline updated'' Default, Toast ''Timeline updated'' Default]
   \<and> map fst (snd (snd second_submit)) = [''POST /api/timeline'', ''POST /api/timeline'']"
  by (simp add: first_submit_def second_submit_def tf_handleSubmit_def rd_onSubmit_def
        rd_handleAddTimelineUpdate_def Let_def logged_postTimeline_def posted_update_def
        js_text_def get_field_def rd_timeline_body_def form_stitched_def page1_def rd_toast_def
        filteredStatuses_def customStatuses_def update_form_offered_def isAssignedDesigner_def
        isUsersRequest_def request_assigned_def assign_request_def user_d1_def proposal_p1_def
        proposal_p2_def)

text \<open>
  C5 (as amended). The status selector of the update form offers exactly the available
  statuses that are not yet in the timeline, in their order (\<^verbatim>\<open>filteredStatuses\<close>).
  The submit path makes no such check: the form's \<^verbatim>\<open>handleSubmit\<close> calls
  \<^verbatim>\<open>onSubmit\<close> with the form's status whenever status and message are not empty, and
  clears the message only (it does nothing when one of them is empty); on the request
  details page, an update whose post resolves is appended to the timeline under the toast
  \<^verbatim>\<open>Timeline updated\<close>, whatever its status and whatever the timeline holds.
\<close>

theorem filteredStatuses_excludes_existing:
  "set (filteredStatuses available existingStatuses)
     = {statusOption \<in> set available. so_value statusOption \<notin> set existingStatuses}
   \<and> map so_value (filteredStatuses available existingStatuses)
       = filter (\<lambda>v. v \<notin> set existingStatuses) (map so_value available)
   \<and> (tf_status f \<noteq> [] \<and> tf_message f \<noteq> [] \<longrightarrow>
        tf_handleSubmit onSubmit (f, parent) =
          (f\<lparr>tf_message := []\<rparr>,
           onSubmit (tf_status f) (tf_message f) (tf_paymentRequired f) (tf_paymentAmount f) parent))
   \<and> (tf_status f = [] \<or> tf_message f = [] \<longrightarrow>
        tf_handleSubmit onSubmit (f, parent) = (f, parent))
   \<and> (rd_request p = Some r \<and>
        postTimeline (rd_timeline_body r status msg) s = (Resolved newUpdate, s1) \<longrightarrow>
        rd_timeline (fst (rd_onSubmit postTimeline updateRequest status msg
                            paymentRequired paymentAmount (p, s)))
          = rd_timeline p @ [newUpdate]
        \<and> rd_toasts (fst (rd_onSubmit postTimeline updateRequest status msg
                            paymentRequired paymentAmount (p, s)))
          = rd_toasts p @ [Toast ''Timeline updated'' Default])"
  by (auto simp: filteredStatuses_def filter_map comp_def tf_handleSubmit_def rd_onSubmit_def
        rd_handleAddTimelineUpdate_def Let_def rd_toast_def
        split: prod.splits outcome.splits)

text \<open>
  With \<^verbatim>\<open>stitched\<close> in the timeline, the selector offers the five other stages; a
  second \<^verbatim>\<open>stitched\<close> update that is submitted is appended all the same. The form as
  it starts, with an empty message, submits nothing.
\<close>

theorem filteredStatuses_excludes_existing_witness:
  "map so_value (filteredStatuses customStatuses [''stitched''])
     = [''assigned'', ''dyed'', ''fitting'', ''out_for_delivery'', ''delivered'']
   \<and> tf_handleSubmit (rd_onSubmit logged_postTimeline logged_updateRequest)
        (form_stitched, (page1\<lparr>rd_timeline := [update_stitched]\<rparr>, []))
      = (form_stitched\<lparr>tf_message := []\<rparr>,
         rd_onSubmit logged_postTimeline logged_updateRequest ''stitched'' ''stitching done''
           False None (page1\<lparr>rd_timeline := [update_stitched]\<rparr>, []))
   \<and> map tu_status (rd_timeline (fst (rd_onSubmit logged_postTimeline logged_updateRequest
          ''stitched'' ''stitching done'' False None
          (page1\<lparr>rd_timeline := [update_stitched]\<rparr>, []))))
       = [''stitched'', ''stitched'']
   \<and> rd_toasts (fst (rd_onSubmit logged_postTimeline logged_updateRequest
          ''stitched'' ''stitching done'' False None
          (page1\<lparr>rd_timeline := [update_stitched]\<rparr>, [])))
       = [Toast ''Timeline updated'' Default]
   \<and> tf_handleSubmit (rd_onSubmit logged_postTimeline logged_updateRequest)
        (initial_form, (page1, [])) = (initial_form, (page1, []))"
proof -
  have rq: "rd_request (page1\<lparr>rd_timeline := [update_stitched]\<rparr>) = Some request_assigned"
    and tl: "rd_timeline (page1\<lparr>rd_timeline := [update_stitched]\<rparr>) = [update_stitched]"
    and ts: "rd_toasts (page1\<lparr>rd_timeline := [update_stitched]\<rparr>) = []"
    by (simp_all add: page1_def)
  have post: "logged_postTimeline (rd_timeline_body request_assigned ''stitched'' ''stitching done'') []
      = (Resolved (posted_update (rd_timeline_body request_assigned ''stitched'' ''stitching done'')),
         [(''POST /api/timeline'', rd_timeline_body request_assigned ''stitched'' ''stitching done'')])"
    by (simp add: logged_postTimeline_def)
  have st: "tu_status (posted_update (rd_timeline_body request_assigned ''stitched'' ''stitching done''))
      = ''stitched''"
    by (simp add: posted_update_def rd_timeline_body_def get_field_def js_text_def)
  have f: "tf_status form_stitched = ''stitched''" "tf_message form_stitched = ''stitching done''"
    "tf_paymentRequired form_stitched = False" "tf_paymentAmount form_stitched = None"
    by (simp_all add: form_stitched_def)
  have e: "tf_message initial_form = []"
    by (simp add: initial_form_def)
  note full = filteredStatuses_excludes_existing [where available = customStatuses
      and existingStatuses = "[''stitched'']" and f = form_stitched
      and onSubmit = "rd_onSubmit logged_postTimeline logged_updateRequest"
      and parent = "(page1\<lparr>rd_timeline := [update_stitched]\<rparr>, [])"
      and p = "page1\<lparr>rd_timeline := [update_stitched]\<rparr>" and r = request_assigned
      and postTimeline = logged_postTimeline and status = "''stitched''"
      and msg = "''stitching done''" and s = "[]"
      and newUpdate = "posted_update (rd_timeline_body request_assigned ''stitched'' ''stitching done'')"
      and ?s1.0 = "[(''POST /api/timeline'', rd_timeline_body request_assigned ''stitched'' ''stitching done'')]"
      and updateRequest = logged_updateRequest and paymentRequired = False
      and paymentAmount = None]
  note empty = filteredStatuses_excludes_existing [where available = customStatuses
      and existingStatuses = "[''stitched'']" and f = initial_form
      and onSubmit = "rd_onSubmit logged_postTimeline logged_updateRequest"
      and parent = "(page1, [])"
      and p = "page1\<lparr>rd_timeline := [update_stitched]\<rparr>" and r = request_assigned
      and postTimeline = logged_postTimeline and status = "''stitched''"
      and msg = "''stitching done''" and s = "[]"
      and newUpdate = "posted_update (rd_timeline_body request_assigned ''stitched'' ''stitching done'')"
      and ?s1.0 = "[(''POST /api/timeline'', rd_timeline_body request_assigned ''stitched'' ''stitching done'')]"
      and updateRequest = logged_updateRequest and paymentRequired = False
      and paymentAmount = None]
  have opts: "map so_value (filteredStatuses customStatuses [''stitched''])
     = [''assigned'', ''dyed'', ''fitting'', ''out_for_delivery'', ''delivered'']"
    using full by (simp add: customStatuses_def)
  show ?thesis
    using full empty rq tl ts post st f e opts
    by (simp add: update_stitched_def)
qed

section \<open>C6: the delivered update and the request's status\<close>

text \<open>
  C6, evaluated where it fails. On the request details page of the assigned request 7,
  the designer adds the \<^verbatim>\<open>delivered\<close> update and the post resolves. The page then sends
  \<^verbatim>\<open>{status: "completed"}\<close> to the request update endpoint, which takes only
  \<^verbatim>\<open>Pending\<close>, \<^verbatim>\<open>Accepted\<close> and \<^verbatim>\<open>Completed\<close> and answers 400; the page puts the
  original request back. Afterwards the page's request is still assigned and the stored
  row is unchanged, under the toast \<^verbatim>\<open>Timeline updated\<close>. (When the post of the update
  is rejected instead, the handler stops with the \<^verbatim>\<open>Error\<close> toast and the request is
  not touched either.) On the order page the same update marks the page's request
  completed and sends nothing to the request endpoint.
\<close>

theorem delivered_does_not_complete_request:
  "put_customization_requests 9 ''7'' [(''status'', JStr ''completed'')] db1 =
     (respond 400 False ''Invalid status. Must be Pending, Accepted, or Completed'' None, db1)
   \<and> rd_handleAddTimelineUpdate (\<lambda>b. resolves update_delivered) (requestService_updateRequest 9)
        ''delivered'' ''handed over'' (page1, db1) =
       (page1\<lparr>rd_timeline := [update_delivered],
              rd_toasts := [Toast ''Timeline updated'' Default]\<rparr>, db1)
   \<and> rd_handleAddTimelineUpdate (\<lambda>b s. (Rejected, s)) (requestService_updateRequest 9)
        ''delivered'' ''handed over'' (page1, db1) =
       (page1\<lparr>rd_toasts := [Toast ''Error'' Destructive]\<rparr>, db1)
   \<and> rd_request page1 = Some request_assigned
   \<and> req_status request_assigned = ''assigned''
   \<and> map cr_status (customization_requests db1) = [JStr ''Accepted'']
   \<and> mo_handleAddTimelineUpdate (\<lambda>b. resolves update_delivered)
        ''delivered'' ''handed over'' True (Some 25) (order_page, db1) =
       (order_page\<lparr>mo_request := Some (request_assigned\<lparr>req_status := ''completed''\<rparr>),
                   mo_timeline := [update_stitched, update_delivered],
                   mo_toasts := [Toast ''Timeline updated'' Default]\<rparr>, db1)"
  by (simp add: rd_handleAddTimelineUpdate_def mo_handleAddTimelineUpdate_def Let_def
        requestService_updateRequest_def axios_def put_customization_requests_def
        get_field_def request_statuses_def respond_def resolves_def page1_def order_page_def
        rd_toast_def mo_toast_def request_assigned_def assign_request_def db1_def)

section \<open>C7: who may send a message\<close>

text \<open>
  C7 as stated fails on \<^verbatim>\<open>POST /api/chat\<close>. In \<open>db0\<close> no proposal is accepted, so no
  pair of users is joined by an accepted proposal; a message from user 3 to user 22 is
  answered 201 and stored.
\<close>

theorem message_without_relationship_is_stored:
  "map dp_status (designer_proposals db0) = [JStr ''Pending'', JStr ''Pending'']
   \<and> post_chat ''1'' 9
        [(''sender_id'', JNum 3), (''receiver_id'', JNum 22), (''message'', JStr ''hello'')] db0 =
       (respond 201 True ''Chat message sent successfully''
          (Some \<lparr>chat_chat_id = ''1'', chat_sender_id = JNum 3, chat_receiver_id = JNum 22,
                 chat_message = JStr ''hello'', chat_status = JStr ''sent'',
                 chat_timestamp = 9\<rparr>),
        \<lparr>designer_proposals = [row_p1, row_p2], customization_requests = [row_r7],
         payments = [],
         chat = [\<lparr>chat_chat_id = ''1'', chat_sender_id = JNum 3, chat_receiver_id = JNum 22,
                  chat_message = JStr ''hello'', chat_status = JStr ''sent'',
                  chat_timestamp = 9\<rparr>]\<rparr>)"
  by (simp add: post_chat_def Let_def get_field_def get_field_default_def db0_def
        row_p1_def row_p2_def)

text \<open>
  C7 (as amended). \<^verbatim>\<open>POST /api/chat\<close> checks only that \<^verbatim>\<open>sender_id\<close>,
  \<^verbatim>\<open>receiver_id\<close> and \<^verbatim>\<open>message\<close> are present: when one of them is missing (falsy) it
  answers 400 and stores nothing; otherwise it stores the message, with the status given
  or \<^verbatim>\<open>sent\<close>, and answers 201, whatever proposals and requests the store holds. On the
  messages page, \<^verbatim>\<open>handleSendMessage\<close> sends nothing unless a user is signed in and a
  partner is selected.
\<close>

theorem post_chat_checks_presence_only:
  "(\<not> truthy (get_field b ''sender_id'') \<or> \<not> truthy (get_field b ''receiver_id'')
      \<or> \<not> truthy (get_field b ''message'') \<longrightarrow>
      post_chat new_id now b d = (respond 400 False ''Missing required fields'' None, d))
   \<and> (truthy (get_field b ''sender_id'') \<and> truthy (get_field b ''receiver_id'')
        \<and> truthy (get_field b ''message'') \<longrightarrow>
      post_chat new_id now b d =
        (respond 201 True ''Chat message sent successfully''
           (Some \<lparr>chat_chat_id = new_id, chat_sender_id = get_field b ''sender_id'',
                  chat_receiver_id = get_field b ''receiver_id'',
                  chat_message = get_field b ''message'',
                  chat_status = get_field_default b ''status'' (JStr ''sent''),
                  chat_timestamp = now\<rparr>),
         d\<lparr>chat := chat d @
              [\<lparr>chat_chat_id = new_id, chat_sender_id = get_field b ''sender_id'',
                chat_receiver_id = get_field b ''receiver_id'',
                chat_message = get_field b ''message'',
                chat_status = get_field_default b ''status'' (JStr ''sent''),
                chat_timestamp = now\<rparr>]\<rparr>))
   \<and> (ms_user p = None \<or> ms_selectedPartner p = None \<longrightarrow>
        handleSendMessage sendMessage content imageUrl (p, s) = (p, s))"
  by (auto simp: post_chat_def Let_def handleSendMessage_def split: option.splits)

theorem post_chat_checks_presence_only_witness:
  "post_chat ''1'' 9 [(''sender_id'', JNum 3), (''message'', JStr ''hello'')] db0 =
     (respond 400 False ''Missing required fields'' None, db0)
   \<and> chat (snd (post_chat ''1'' 9
        [(''sender_id'', JNum 3), (''receiver_id'', JNum 21), (''message'', JStr ''hello'')] db1))
      = [\<lparr>chat_chat_id = ''1'', chat_sender_id = JNum 3, chat_receiver_id = JNum 21,
          chat_message = JStr ''hello'', chat_status = JStr ''sent'', chat_timestamp = 9\<rparr>]
   \<and> handleSendMessage (\<lambda>b s. (Rejected, b # s)) ''hello'' None
        (\<lparr>ms_user = Some user_c, ms_selectedPartner = None, ms_messages = [], ms_toasts = []\<rparr>, [])
      = (\<lparr>ms_user = Some user_c, ms_selectedPartner = None, ms_messages = [], ms_toasts = []\<rparr>, [])"
  using post_chat_checks_presence_only [of "[(''sender_id'', JNum 3), (''message'', JStr ''hello'')]"
      "''1''" 9 db0
      "\<lparr>ms_user = Some user_c, ms_selectedPartner = None, ms_messages = [], ms_toasts = []\<rparr>"
      "\<lambda>b s. (Rejected, b # s)" "''hello''" None "[]"]
    post_chat_checks_presence_only [of
      "[(''sender_id'', JNum 3), (''receiver_id'', JNum 21), (''message'', JStr ''hello'')]"
      "''1''" 9 db1
      "\<lparr>ms_user = Some user_c, ms_selectedPartner = None, ms_messages = [], ms_toasts = []\<rparr>"
      "\<lambda>b s. (Rejected, b # s)" "''hello''" None "[]"]
  by (simp add: get_field_def get_field_default_def db1_def)

section \<open>C8: the payments of the timeline\<close>




section \<open>C9: recording a payment\<close>

text \<open>
  C9 as stated fails on \<^verbatim>\<open>POST /api/payments\<close>. The update \<^verbatim>\<open>u1\<close> asks for 25; a
  payment of 999 that names it is answered 201 and stored, and the stored payment has the
  status \<^verbatim>\<open>Pending\<close>, not paid. The endpoint reads no \<^verbatim>\<open>timelineUpdateId\<close> and the
  store has no timeline to mark as paid.
\<close>

theorem mismatched_payment_is_stored:
  "tu_id update_stitched = ''u1'' \<and> tu_paymentAmount update_stitched = Some 25
   \<and> post_payments ''1'' 9
        [(''user_id'', JNum 3), (''merchant_id'', JNum 21), (''order_id'', JNum 7),
         (''amount'', JNum 999), (''payment_method'', JStr ''card''),
         (''payment_type'', JStr ''Customer Payment''), (''timelineUpdateId'', JStr ''u1'')] db1 =
       (respond 201 True ''Payment created successfully''
          (Some \<lparr>pay_payment_id = ''1'', pay_user_id = JNum 3, pay_merchant_id = JNum 21,
                 pay_order_id = JNum 7, pay_amount = JNum 999,
                 pay_payment_method = JStr ''card'',
                 pay_payment_type = JStr ''Customer Payment'', pay_status = JStr ''Pending'',
                 pay_transaction_id = JUndefined, pay_transaction_date = 9\<rparr>),
        db1\<lparr>payments :=
              [\<lparr>pay_payment_id = ''1'', pay_user_id = JNum 3, pay_merchant_id = JNum 21,
                pay_order_id = JNum 7, pay_amount = JNum 999,
                pay_payment_method = JStr ''card'',
                pay_payment_type = JStr ''Customer Payment'', pay_status = JStr ''Pending'',
                pay_transaction_id = JUndefined, pay_transaction_date = 9\<rparr>]\<rparr>)"
  by (simp add: post_payments_def Let_def get_field_def get_field_default_def db1_def
        payment_statuses_def payment_types_def update_stitched_def)

text \<open>
  C9 (as amended). \<^verbatim>\<open>POST /api/payments\<close> answers 400 and stores nothing when
  \<^verbatim>\<open>user_id\<close>, \<^verbatim>\<open>merchant_id\<close>, \<^verbatim>\<open>order_id\<close>, \<^verbatim>\<open>amount\<close>, \<^verbatim>\<open>payment_method\<close> or
  \<^verbatim>\<open>payment_type\<close> is missing (falsy), or when the status (by default \<^verbatim>\<open>Pending\<close>) or
  the payment type is outside its list. Otherwise it answers 201 and stores one payment
  that carries the amount of the body and that status; no amount is compared with a
  timeline update's. The payment page posts one body for an update with a payment amount,
  and its amount is the update's \<^verbatim>\<open>paymentAmount\<close>.
\<close>

theorem post_payments_checks_fields_only:
  "(\<not> truthy (get_field b ''user_id'') \<or> \<not> truthy (get_field b ''merchant_id'')
      \<or> \<not> truthy (get_field b ''order_id'') \<or> \<not> truthy (get_field b ''amount'')
      \<or> \<not> truthy (get_field b ''payment_method'') \<or> \<not> truthy (get_field b ''payment_type'')
      \<or> get_field_default b ''status'' (JStr ''Pending'') \<notin> set payment_statuses
      \<or> get_field b ''payment_type'' \<notin> set payment_types \<longrightarrow>
      status_code (fst (post_payments new_id now b d)) = 400
      \<and> snd (post_payments new_id now b d) = d)
   \<and> (truthy (get_field b ''user_id'') \<and> truthy (get_field b ''merchant_id'')
        \<and> truthy (get_field b ''order_id'') \<and> truthy (get_field b ''amount'')
        \<and> truthy (get_field b ''payment_method'') \<and> truthy (get_field b ''payment_type'')
        \<and> get_field_default b ''status'' (JStr ''Pending'') \<in> set payment_statuses
        \<and> get_field b ''payment_type'' \<in> set payment_types \<longrightarrow>
      status_code (fst (post_payments new_id now b d)) = 201
      \<and> (\<exists>row. payments (snd (post_payments new_id now b d)) = payments d @ [row]
            \<and> data (fst (post_payments new_id now b d)) = Some row
            \<and> pay_amount row = get_field b ''amount''
            \<and> pay_status row = get_field_default b ''status'' (JStr ''Pending'')))
   \<and> (pp_request p = Some request \<and> pp_timelineUpdate p = Some timelineUpdate
        \<and> tu_paymentAmount timelineUpdate = Some amount \<and> amount \<noteq> 0 \<longrightarrow>
      map (\<lambda>sent. get_field sent ''amount'')
          (snd (handleMakePayment (\<lambda>sent s. (Resolved (), s @ [sent])) (p, [])))
        = [JNum amount])"
proof (intro conjI impI)
  assume "\<not> truthy (get_field b ''user_id'') \<or> \<not> truthy (get_field b ''merchant_id'')
      \<or> \<not> truthy (get_field b ''order_id'') \<or> \<not> truthy (get_field b ''amount'')
      \<or> \<not> truthy (get_field b ''payment_method'') \<or> \<not> truthy (get_field b ''payment_type'')
      \<or> get_field_default b ''status'' (JStr ''Pending'') \<notin> set payment_statuses
      \<or> get_field b ''payment_type'' \<notin> set payment_types"
  then show "status_code (fst (post_payments new_id now b d)) = 400"
    and "snd (post_payments new_id now b d) = d"
    by (auto simp: post_payments_def Let_def respond_def)
next
  assume ok: "truthy (get_field b ''user_id'') \<and> truthy (get_field b ''merchant_id'')
        \<and> truthy (get_field b ''order_id'') \<and> truthy (get_field b ''amount'')
        \<and> truthy (get_field b ''payment_method'') \<and> truthy (get_field b ''payment_type'')
        \<and> get_field_default b ''status'' (JStr ''Pending'') \<in> set payment_statuses
        \<and> get_field b ''payment_type'' \<in> set payment_types"
  then show "status_code (fst (post_payments new_id now b d)) = 201"
    by (simp add: post_payments_def Let_def respond_def)
  from ok show "\<exists>row. payments (snd (post_payments new_id now b d)) = payments d @ [row]
            \<and> data (fst (post_payments new_id now b d)) = Some row
            \<and> pay_amount row = get_field b ''amount''
            \<and> pay_status row = get_field_default b ''status'' (JStr ''Pending'')"
    by (simp add: post_payments_def Let_def respond_def)
next
  assume "pp_request p = Some request \<and> pp_timelineUpdate p = Some timelineUpdate
        \<and> tu_paymentAmount timelineUpdate = Some amount \<and> amount \<noteq> 0"
  then show "map (\<lambda>sent. get_field sent ''amount'')
          (snd (handleMakePayment (\<lambda>sent s. (Resolved (), s @ [sent])) (p, [])))
        = [JNum amount]"
    by (simp add: handleMakePayment_def Let_def payment_body_def get_field_def)
qed

text \<open>
  The scenario of the specification: the customer pays the 25 that the \<^verbatim>\<open>stitched\<close>
  update asks for.
\<close>

theorem post_payments_checks_fields_only_witness:
  "status_code (fst (post_payments ''1'' 9 (payment_body request_assigned update_stitched 25) db1))
     = 400
   \<and> snd (post_payments ''1'' 9 (payment_body request_assigned update_stitched 25) db1) = db1
   \<and> status_code (fst (post_payments ''1'' 9
        [(''user_id'', JNum 3), (''merchant_id'', JNum 21), (''order_id'', JNum 7),
         (''amount'', JNum 25), (''payment_method'', JStr ''card''),
         (''payment_type'', JStr ''Customer Payment'')] db1)) = 201
   \<and> map pay_status (payments (snd (post_payments ''1'' 9
        [(''user_id'', JNum 3), (''merchant_id'', JNum 21), (''order_id'', JNum 7),
         (''amount'', JNum 25), (''payment_method'', JStr ''card''),
         (''payment_type'', JStr ''Customer Payment'')] db1))) = [JStr ''Pending'']
   \<and> map (\<lambda>sent. get_field sent ''amount'')
        (snd (handleMakePayment (\<lambda>sent s. (Resolved (), s @ [sent]))
           (\<lparr>pp_request = Some request_assigned, pp_timelineUpdate = Some update_stitched,
             pp_processingPayment = False, pp_toasts = [], pp_location = None\<rparr>, [])))
      = [JNum 25]"
  using post_payments_checks_fields_only [of
      "payment_body request_assigned update_stitched 25" "''1''" 9 db1
      "\<lparr>pp_request = Some request_assigned, pp_timelineUpdate = Some update_stitched,
        pp_processingPayment = False, pp_toasts = [], pp_location = None\<rparr>"
      request_assigned update_stitched 25]
    post_payments_checks_fields_only [of
      "[(''user_id'', JNum 3), (''merchant_id'', JNum 21), (''order_id'', JNum 7),
         (''amount'', JNum 25), (''payment_method'', JStr ''card''),
         (''payment_type'', JStr ''Customer Payment'')]" "''1''" 9 db1
      "\<lparr>pp_request = Some request_assigned, pp_timelineUpdate = Some update_stitched,
        pp_processingPayment = False, pp_toasts = [], pp_location = None\<rparr>"
      request_assigned update_stitched 25]
  by (auto simp: payment_body_def get_field_def get_field_default_def payment_statuses_def
        payment_types_def update_stitched_def db1_def)

section \<open>C10: the status of a proposal update is validated\<close>

text \<open>
  C10 as stated fails for a status that is supplied but falsy. The body
  \<^verbatim>\<open>{"price": 50, "status": ""}\<close> supplies a status that is none of the three
  strings; the handler's \<^verbatim>\<open>if (status)\<close> skips the validation, the call is answered 200
  and the proposal's row has a new price.
\<close>

theorem empty_status_is_not_rejected:
  "put_designer_proposals ''1'' [(''price'', JNum 50), (''status'', JStr '''')] db0 =
     (respond 200 True ''Designer proposal updated successfully''
        (Some (row_p1\<lparr>dp_price := JNum 50\<rparr>)),
      \<lparr>designer_proposals = [row_p1\<lparr>dp_price := JNum 50\<rparr>, row_p2],
       customization_requests = [row_r7], payments = [], chat = []\<rparr>)
   \<and> dp_price row_p1 = JNum 100"
  by (simp add: put_designer_proposals_def update_designer_proposal_def Let_def get_field_def
        proposal_statuses_def db0_def row_p1_def row_p2_def)

text \<open>
  C10 (as amended). For every call of the proposal update endpoint whose \<^verbatim>\<open>status\<close> is
  truthy (a string that is not empty, a number other than 0, \<^verbatim>\<open>true\<close>, an array or an
  object): if the status is not exactly \<^verbatim>\<open>"Pending"\<close>, \<^verbatim>\<open>"Accepted"\<close> or
  \<^verbatim>\<open>"Cancelled"\<close>, the call is answered 400 with the invalid-status message and the
  store is left as it was; so a call answered 200 carries one of the three strings.
\<close>

theorem put_designer_proposals_status_checked:
  assumes "truthy (get_field b ''status'')"
  shows "(get_field b ''status'' \<notin> set proposal_statuses \<longrightarrow>
            put_designer_proposals proposalId b d =
              (respond 400 False ''Invalid status. Must be Pending, Accepted, or Cancelled'' None,
               d))
       \<and> (status_code (fst (put_designer_proposals proposalId b d)) = 200 \<longrightarrow>
            get_field b ''status'' \<in> set proposal_statuses)"
  using assms by (auto simp: put_designer_proposals_def Let_def respond_def)

text \<open>
  The bodies the page's accept and reject handlers send, \<^verbatim>\<open>{status: "accepted"}\<close> and
  \<^verbatim>\<open>{status: "rejected"}\<close>: both are answered 400, the store is unchanged, and the
  service's promise rejects.
\<close>

theorem put_designer_proposals_status_checked_witness:
  "truthy (get_field [(''status'', JStr ''accepted'')] ''status'')
   \<and> put_designer_proposals ''1'' [(''status'', JStr ''accepted'')] db0 =
       (respond 400 False ''Invalid status. Must be Pending, Accepted, or Cancelled'' None, db0)
   \<and> put_designer_proposals ''1'' [(''status'', JStr ''rejected'')] db0 =
       (respond 400 False ''Invalid status. Must be Pending, Accepted, or Cancelled'' None, db0)
   \<and> proposalService_updateProposal ''1'' [(''status'', JStr ''accepted'')] db0 = (Rejected, db0)"
proof -
  have a: "truthy (get_field [(''status'', JStr ''accepted'')] ''status'')"
    and r: "truthy (get_field [(''status'', JStr ''rejected'')] ''status'')"
    by (simp_all add: get_field_def)
  have na: "get_field [(''status'', JStr ''accepted'')] ''status'' \<notin> set proposal_statuses"
    and nr: "get_field [(''status'', JStr ''rejected'')] ''status'' \<notin> set proposal_statuses"
    by (simp_all add: get_field_def proposal_statuses_def)
  show ?thesis
    using a na nr put_designer_proposals_status_checked [OF a, of "''1''" db0]
      put_designer_proposals_status_checked [OF r, of "''1''" db0]
    by (simp add: proposalService_updateProposal_def axios_def respond_def)
qed

end
